theory Spec2Isabelle
  imports Complex_Main
begin

section \<open>Values, errors and the instrument session\<close>

text \<open>
  The driver \<^verbatim>\<open>pymeasure/instruments/lecroy/lecroyT3DSO1204.py\<close> handles Python values:
  numbers (the reply tokens that \<^verbatim>\<open>float\<close> accepts, and the integers \<^verbatim>\<open>1\<close> .. \<^verbatim>\<open>4\<close> that
  name a channel), strings, and lists of these. Python compares an \<^verbatim>\<open>int\<close> and a \<^verbatim>\<open>float\<close>
  by their numeric value, so both are \<open>Num\<close> here; rounding and NaN are outside the model.
  Strings are the ASCII replies of the instrument. Python's \<^verbatim>\<open>None\<close> is \<open>None\<close> of an
  option type wherever the source can hold it.
\<close>

datatype val = Num real | Str string | List "val list"

datatype error =
    ValueError string
  | KeyError
  | IndexError
  | TypeError
  | AttributeError
  | RecursionError
  | TransportError

text \<open>A command given to the transport: a query, or a write of a template filled with a value.\<close>

datatype cmd = Query string | Write string val

text \<open>
  The session object. \<open>waveform_source\<close> and \<open>grid_number\<close> are the plain attributes
  \<^verbatim>\<open>self.waveform_source\<close> and \<^verbatim>\<open>self._grid_number\<close>; \<open>sent\<close> is the sequence of commands
  transmitted so far, oldest first.
\<close>

record scope =
  waveform_source :: val
  grid_number :: val
  sent :: "cmd list"

type_synonym 'a action = "scope \<Rightarrow> (error + 'a) \<times> scope"

definition ret :: "'a \<Rightarrow> 'a action" where
  "ret x s = (Inr x, s)"

definition raise :: "error \<Rightarrow> 'a action" where
  "raise e s = (Inl e, s)"

definition lift :: "error + 'a \<Rightarrow> 'a action" where
  "lift r s = (r, s)"

definition attr :: "(scope \<Rightarrow> 'a) \<Rightarrow> 'a action" where
  "attr f s = (Inr (f s), s)"

text \<open>Sequencing: an exception of the first action ends the whole computation.\<close>

definition and_then :: "'a action \<Rightarrow> ('a \<Rightarrow> 'b action) \<Rightarrow> 'b action" where
  "and_then m f s = (case m s of (Inl e, s') \<Rightarrow> (Inl e, s') | (Inr x, s') \<Rightarrow> f x s')"

section \<open>Python operations on values\<close>

text \<open>\<^verbatim>\<open>v[i]\<close> for a non-negative index.\<close>

fun py_getitem :: "val \<Rightarrow> nat \<Rightarrow> error + val" where
  "py_getitem (Num x) i = Inl TypeError"
| "py_getitem (Str cs) i = (if i < length cs then Inr (Str [cs ! i]) else Inl IndexError)"
| "py_getitem (List vs) i = (if i < length vs then Inr (vs ! i) else Inl IndexError)"

text \<open>\<^verbatim>\<open>len(v)\<close>.\<close>

fun py_len :: "val \<Rightarrow> error + nat" where
  "py_len (Num x) = Inl TypeError"
| "py_len (Str cs) = Inr (length cs)"
| "py_len (List vs) = Inr (length vs)"

text \<open>\<^verbatim>\<open>int(v)\<close>: a number is truncated towards zero; a reply token that is still a string
  is one that \<^verbatim>\<open>float\<close> refused, and \<^verbatim>\<open>int\<close> refuses it too.\<close>

fun py_int :: "val \<Rightarrow> error + val" where
  "py_int (Num x) = Inr (Num (of_int (if 0 \<le> x then \<lfloor>x\<rfloor> else \<lceil>x\<rceil>)))"
| "py_int (Str cs) = Inl (ValueError ''invalid literal for int()'')"
| "py_int (List vs) = Inl TypeError"

text \<open>\<^verbatim>\<open>str.lower\<close> on ASCII.\<close>

definition lower_char :: "char \<Rightarrow> char" where
  "lower_char c =
     (let n = (of_char c :: nat) in if 65 \<le> n \<and> n \<le> 90 then char_of (n + 32) else c)"

fun py_lower :: "val \<Rightarrow> error + val" where
  "py_lower (Str cs) = Inr (Str (map lower_char cs))"
| "py_lower v = Inl AttributeError"

text \<open>\<^verbatim>\<open>a < b\<close>: numbers by value, strings and lists lexicographically, anything else is a
  \<^verbatim>\<open>TypeError\<close>.\<close>

fun str_lt :: "string \<Rightarrow> string \<Rightarrow> bool" where
  "str_lt [] [] = False"
| "str_lt [] (d # ds) = True"
| "str_lt (c # cs) [] = False"
| "str_lt (c # cs) (d # ds) =
     (if c = d then str_lt cs ds else (of_char c :: nat) < of_char d)"

fun py_lt :: "val \<Rightarrow> val \<Rightarrow> error + bool"
  and list_lt :: "val list \<Rightarrow> val list \<Rightarrow> error + bool" where
  "py_lt (Num x) (Num y) = Inr (x < y)"
| "py_lt (Str a) (Str b) = Inr (str_lt a b)"
| "py_lt (List xs) (List ys) = list_lt xs ys"
| "py_lt v w = Inl TypeError"
| "list_lt [] [] = Inr False"
| "list_lt [] (y # ys) = Inr True"
| "list_lt (x # xs) [] = Inr False"
| "list_lt (x # xs) (y # ys) = (if x = y then list_lt xs ys else py_lt x y)"

text \<open>\<^verbatim>\<open>min(a, b)\<close>: the second argument replaces the first only when it is smaller.\<close>

definition py_min :: "val \<Rightarrow> val \<Rightarrow> error + val" where
  "py_min a b = (case py_lt b a of Inl e \<Rightarrow> Inl e | Inr lt \<Rightarrow> Inr (if lt then b else a))"

text \<open>\<^verbatim>\<open>xs.index(x)\<close>: the position of the first element equal to \<open>x\<close>.\<close>

fun index_of :: "val \<Rightarrow> val list \<Rightarrow> nat option" where
  "index_of x [] = None"
| "index_of x (y # ys) =
     (if y = x then Some 0 else (case index_of x ys of None \<Rightarrow> None | Some i \<Rightarrow> Some (Suc i)))"

text \<open>\<^verbatim>\<open>vals[vals.index(marker) + 1]\<close>, as \<^verbatim>\<open>waveform_preamble\<close> reads a field of the
  \<^verbatim>\<open>WFSU?\<close> reply.\<close>

definition item_after :: "val list \<Rightarrow> val \<Rightarrow> error + val" where
  "item_after vals marker =
     (case index_of marker vals of
        None \<Rightarrow> Inl (ValueError ''is not in list'')
      | Some i \<Rightarrow> py_getitem (List vals) (i + 1))"

section \<open>The pattern of a math definition\<close>

text \<open>
  \<^verbatim>\<open>re.match(r"'(\w+)[+\-/*](\w+)'", math_define)\<close>: a quote, a non-empty run of word
  characters, one operator, a non-empty run of word characters, a quote; the match is
  anchored at the start only. A run of \<^verbatim>\<open>\w+\<close> is greedy, and since neither an operator nor a
  quote is a word character the only possible match takes the longest runs.
\<close>

definition quote :: char where
  "quote = CHR 0x27"

definition is_word :: "char \<Rightarrow> bool" where
  "is_word c =
     (let n = (of_char c :: nat) in
        (48 \<le> n \<and> n \<le> 57) \<or> (65 \<le> n \<and> n \<le> 90) \<or> (97 \<le> n \<and> n \<le> 122) \<or> n = 95)"

definition is_operator :: "char \<Rightarrow> bool" where
  "is_operator c = (c \<in> set ''+-/*'')"

definition match_math :: "string \<Rightarrow> (string \<times> string) option" where
  "match_math cs =
     (case cs of
        [] \<Rightarrow> None
      | q # r \<Rightarrow>
          if q \<noteq> quote then None
          else
            let g1 = takeWhile is_word r; r1 = dropWhile is_word r in
            if g1 = [] then None
            else (case r1 of
                [] \<Rightarrow> None
              | op # r2 \<Rightarrow>
                  if \<not> is_operator op then None
                  else
                    let g2 = takeWhile is_word r2; r3 = dropWhile is_word r2 in
                    if g2 = [] then None
                    else (case r3 of
                        [] \<Rightarrow> None
                      | q' # rest \<Rightarrow> if q' = quote then Some (g1, g2) else None)))"

text \<open>\<^verbatim>\<open>re.match\<close> on a value that is not a string raises \<^verbatim>\<open>TypeError\<close>.\<close>

fun re_match :: "val \<Rightarrow> error + (string \<times> string) option" where
  "re_match (Str cs) = Inr (match_math cs)"
| "re_match v = Inl TypeError"

section \<open>Command descriptors and property access\<close>

text \<open>
  Every property of the driver is declared by \<^verbatim>\<open>Instrument.control\<close> or
  \<^verbatim>\<open>Instrument.measurement\<close> from a query template, a write template, a validator, the
  allowed values (a list, or a table from the value the caller sees to the token of the
  instrument), the flag \<^verbatim>\<open>map_values\<close> and the function \<^verbatim>\<open>get_process\<close>.
\<close>

datatype value_spec = NoValues | ValueList "val list" | ValueMap "(val \<times> val) list"

record descriptor =
  get_command :: string
  set_command :: "string option"
  validator :: "val \<Rightarrow> value_spec \<Rightarrow> error + val"
  allowed_values :: value_spec
  map_values :: bool
  get_process :: "val \<Rightarrow> error + val"

text \<open>The defaults of \<^verbatim>\<open>Instrument.control\<close>: a validator that accepts every value, and a
  \<^verbatim>\<open>get_process\<close> that changes nothing.\<close>

definition accept_any :: "val \<Rightarrow> value_spec \<Rightarrow> error + val" where
  "accept_any v vs = Inr v"

text \<open>
  Modelled from the spec: the validators \<^verbatim>\<open>strict_discrete_set\<close> and \<^verbatim>\<open>strict_range\<close> of
  \<^verbatim>\<open>pymeasure.instruments.validators\<close>, which the driver imports. Each takes the candidate
  and the allowed values, and returns the accepted value or signals invalid-argument:
  membership in the discrete set (the keys, for a table), and a check against the two
  bounds of a numeric range.
\<close>

fun members :: "value_spec \<Rightarrow> val list" where
  "members NoValues = []"
| "members (ValueList vs) = vs"
| "members (ValueMap tbl) = map fst tbl"

definition strict_discrete_set :: "val \<Rightarrow> value_spec \<Rightarrow> error + val" where
  "strict_discrete_set v vs =
     (if v \<in> set (members vs) then Inr v else Inl (ValueError ''Value is not in the discrete set''))"

fun strict_range :: "val \<Rightarrow> value_spec \<Rightarrow> error + val" where
  "strict_range (Num x) (ValueList [Num lo, Num hi]) =
     (if lo \<le> x \<and> x \<le> hi then Inr (Num x) else Inl (ValueError ''Value is not in the range''))"
| "strict_range v vs = Inl TypeError"

definition control ::
  "string \<Rightarrow> string \<Rightarrow> (val \<Rightarrow> value_spec \<Rightarrow> error + val) \<Rightarrow> value_spec \<Rightarrow> bool \<Rightarrow>
   (val \<Rightarrow> error + val) \<Rightarrow> descriptor" where
  "control q w v vs m g =
     \<lparr>get_command = q, set_command = Some w, validator = v, allowed_values = vs,
      map_values = m, get_process = g\<rparr>"

definition measurement :: "string \<Rightarrow> value_spec \<Rightarrow> bool \<Rightarrow> descriptor" where
  "measurement q vs m =
     \<lparr>get_command = q, set_command = None, validator = accept_any, allowed_values = vs,
      map_values = m, get_process = Inr\<rparr>"

text \<open>
  What the driver inherits from \<^verbatim>\<open>TeledyneOscilloscope\<close>, \<^verbatim>\<open>TeledyneOscilloscopeChannel\<close>
  and the transport, none of which it defines, is a parameter of the model:
  \<^item> \<open>device\<close>: the reply of the instrument to the last command of a history of commands,
    as the typed tokens that \<^verbatim>\<open>self.values\<close> returns, or a transport failure;
  \<^item> \<open>sanitize_source\<close>: the imported function of that name;
  \<^item> \<open>ch\<close>: the number of the channel object that \<^verbatim>\<open>self.ch(source)\<close> returns, and
    \<open>channel_command\<close>: how a command of channel \<open>n\<close> is addressed to it;
  \<^item> the descriptors of the inherited properties \<^verbatim>\<open>math_define\<close>, \<^verbatim>\<open>math_vdiv\<close>,
    \<^verbatim>\<open>math_vpos\<close>, \<^verbatim>\<open>timebase_scale\<close>, \<^verbatim>\<open>timebase_offset\<close>, and of \<^verbatim>\<open>scale\<close> and \<^verbatim>\<open>offset\<close>
    of a channel.
\<close>

record env =
  device :: "cmd list \<Rightarrow> error + val list"
  sanitize_source :: "string \<Rightarrow> error + string"
  ch :: "val \<Rightarrow> error + nat"
  channel_command :: "nat \<Rightarrow> string \<Rightarrow> string"
  math_define :: descriptor
  math_vdiv :: descriptor
  math_vpos :: descriptor
  timebase_scale :: descriptor
  timebase_offset :: descriptor
  channel_scale :: descriptor
  channel_offset :: descriptor

text \<open>Transmitting a command records it and yields the reply of the instrument.\<close>

definition transmit :: "env \<Rightarrow> cmd \<Rightarrow> (val list) action" where
  "transmit env c s = (device env (sent s @ [c]), s\<lparr>sent := sent s @ [c]\<rparr>)"

text \<open>\<^verbatim>\<open>self.values(command)\<close>.\<close>

definition ask_values :: "env \<Rightarrow> string \<Rightarrow> (val list) action" where
  "ask_values env q = transmit env (Query q)"

text \<open>The table of a property read backwards: the first key whose token is the reply.\<close>

fun key_of :: "(val \<times> val) list \<Rightarrow> val \<Rightarrow> error + val" where
  "key_of [] t = Inl KeyError"
| "key_of ((k, v) # tbl) t = (if v = t then Inr k else key_of tbl t)"

fun token_of :: "(val \<times> val) list \<Rightarrow> val \<Rightarrow> error + val" where
  "token_of [] x = Inl KeyError"
| "token_of ((k, v) # tbl) x = (if k = x then Inr v else token_of tbl x)"

definition translate_reply :: "descriptor \<Rightarrow> val \<Rightarrow> error + val" where
  "translate_reply d v =
     (if map_values d then
        (case v of
           List vs \<Rightarrow> Inr v
         | _ \<Rightarrow> (case allowed_values d of ValueMap tbl \<Rightarrow> key_of tbl v | _ \<Rightarrow> Inl TypeError))
      else Inr v)"

definition translate_value :: "descriptor \<Rightarrow> val \<Rightarrow> error + val" where
  "translate_value d v =
     (if map_values d then
        (case allowed_values d of ValueMap tbl \<Rightarrow> token_of tbl v | _ \<Rightarrow> Inl TypeError)
      else Inr v)"

text \<open>
  Modelled from the spec: the accessor that \<^verbatim>\<open>Instrument.control\<close> and
  \<^verbatim>\<open>Instrument.measurement\<close> bind to a descriptor. Reading issues the query, receives the
  reply (one token is a scalar, several are a sequence), translates a scalar token through
  the table when \<^verbatim>\<open>map_values\<close> is set, applies \<^verbatim>\<open>get_process\<close> and returns the value.
  Writing validates the candidate against the validator and the allowed values, and only
  then fills the write template and transmits it: a rejected value transmits nothing.
\<close>

definition property_get :: "env \<Rightarrow> descriptor \<Rightarrow> val action" where
  "property_get env d =
     and_then (ask_values env (get_command d)) (\<lambda>vals.
     and_then (lift (translate_reply d (case vals of [v] \<Rightarrow> v | _ \<Rightarrow> List vals))) (\<lambda>v.
     lift (get_process d v)))"

definition property_set :: "env \<Rightarrow> descriptor \<Rightarrow> val \<Rightarrow> unit action" where
  "property_set env d v =
     and_then (lift (validator d v (allowed_values d))) (\<lambda>v'.
     and_then (lift (translate_value d v')) (\<lambda>t.
     (case set_command d of
        None \<Rightarrow> raise AttributeError
      | Some w \<Rightarrow> and_then (transmit env (Write w t)) (\<lambda>_. ret ()))))"

text \<open>A property of channel \<open>n\<close> is the descriptor with its commands addressed to \<open>n\<close>.\<close>

definition of_channel :: "env \<Rightarrow> nat \<Rightarrow> descriptor \<Rightarrow> descriptor" where
  "of_channel env n d =
     d\<lparr>get_command := channel_command env n (get_command d),
       set_command := map_option (channel_command env n) (set_command d)\<rparr>"

section \<open>The driver: \<^verbatim>\<open>LeCroyT3DSO1204Channel\<close> and \<^verbatim>\<open>LeCroyT3DSO1204\<close>\<close>

definition channel_unit :: descriptor where
  "channel_unit =
     control ''UNIT?'' ''UNIT %s'' strict_discrete_set (ValueList [Str ''A'', Str ''V'']) False Inr"

definition timebase_hor_magnify :: descriptor where
  "timebase_hor_magnify =
     control ''HMAG?'' ''HMAG %.2ES'' strict_range (ValueList [Num (1 / 10 ^ 9), Num (20 / 10 ^ 3)])
       False Inr"

definition timebase_hor_position :: descriptor where
  "timebase_hor_position = control ''HPOS?'' ''HPOS %.2ES'' accept_any NoValues False Inr"

text \<open>\<^verbatim>\<open>timebase_setup\<close>: an argument that is \<^verbatim>\<open>None\<close> is skipped.\<close>

definition set_if_given :: "env \<Rightarrow> descriptor \<Rightarrow> val option \<Rightarrow> unit action" where
  "set_if_given env d arg = (case arg of None \<Rightarrow> ret () | Some v \<Rightarrow> property_set env d v)"

definition timebase_setup ::
  "env \<Rightarrow> val option \<Rightarrow> val option \<Rightarrow> val option \<Rightarrow> val option \<Rightarrow> unit action" where
  "timebase_setup env scale offset hor_magnify hor_position =
     and_then (set_if_given env (timebase_scale env) scale) (\<lambda>_.
     and_then (set_if_given env (timebase_offset env) offset) (\<lambda>_.
     and_then (set_if_given env timebase_hor_magnify hor_magnify) (\<lambda>_.
     set_if_given env timebase_hor_position hor_position)))"

text \<open>\<^verbatim>\<open>get_process\<close> of \<^verbatim>\<open>acquisition_type\<close>:
  \<^verbatim>\<open>lambda v: [v[0].lower(), int(v[1])] if len(v) == 2 and v[0] == "AVERAGE" else v\<close>.\<close>

definition sum_then :: "error + 'a \<Rightarrow> ('a \<Rightarrow> error + 'b) \<Rightarrow> error + 'b" where
  "sum_then r f = (case r of Inl e \<Rightarrow> Inl e | Inr x \<Rightarrow> f x)"

definition acquisition_type_get_process :: "val \<Rightarrow> error + val" where
  "acquisition_type_get_process v =
     sum_then (py_len v) (\<lambda>n.
       if n = 2 then
         sum_then (py_getitem v 0) (\<lambda>h.
           if h = Str ''AVERAGE'' then
             sum_then (py_lower h) (\<lambda>l.
             sum_then (py_getitem v 1) (\<lambda>a.
             sum_then (py_int a) (\<lambda>i. Inr (List [l, i]))))
           else Inr v)
       else Inr v)"

definition acquisition_type :: descriptor where
  "acquisition_type =
     control ''ACQW?'' ''ACQW %s'' strict_discrete_set
       (ValueMap [(Str ''normal'', Str ''SAMPLING''), (Str ''peak'', Str ''PEAK_DETECT''),
                  (Str ''average'', Str ''AVERAGE''), (Str ''highres'', Str ''HIGH_RES'')])
       True acquisition_type_get_process"

definition acquisition_average :: descriptor where
  "acquisition_average =
     control ''AVGA?'' ''AVGA %d'' strict_discrete_set
       (ValueList [Num 4, Num 16, Num 32, Num 64, Num 128, Num 256, Num 512, Num 1024]) False Inr"

definition acquisition_status :: descriptor where
  "acquisition_status =
     measurement ''SAST?''
       (ValueMap [(Str ''stopped'', Str ''Stop''), (Str ''triggered'', Str (''Trig'' @ [quote] @ ''d'')),
                  (Str ''ready'', Str ''Ready''), (Str ''auto'', Str ''Auto''),
                  (Str ''armed'', Str ''Arm'')])
       True"

definition acquisition_sampling_rate :: descriptor where
  "acquisition_sampling_rate = measurement ''SARA?'' NoValues False"

definition acquisition_sample_size_c1 :: descriptor where
  "acquisition_sample_size_c1 = measurement ''SANU? C1'' NoValues False"

definition acquisition_sample_size_c2 :: descriptor where
  "acquisition_sample_size_c2 = measurement ''SANU? C1'' NoValues False"

definition acquisition_sample_size_c3 :: descriptor where
  "acquisition_sample_size_c3 = measurement ''SANU? C3'' NoValues False"

definition acquisition_sample_size_c4 :: descriptor where
  "acquisition_sample_size_c4 = measurement ''SANU? C3'' NoValues False"

definition memory_size :: descriptor where
  "memory_size =
     control ''MSIZ?'' ''MSIZ %s'' strict_discrete_set
       (ValueMap [(Num 7000, Str ''7K''), (Num 70000, Str ''70K''), (Num 700000, Str ''700K''),
                  (Num 7000000, Str ''7M''), (Num 14000, Str ''14K''), (Num 140000, Str ''140K''),
                  (Num 1400000, Str ''1.4M''), (Num 14000000, Str ''14M'')])
       True Inr"

text \<open>
  \<^verbatim>\<open>acquisition_sample_size\<close>. A string source goes through \<^verbatim>\<open>sanitize_source\<close> first. The
  branch of \<^verbatim>\<open>MATH\<close> calls the method again on both operands; \<open>depth\<close> is the number of
  nested calls that the interpreter's recursion limit still allows, and a call beyond it
  raises \<^verbatim>\<open>RecursionError\<close>.
\<close>

definition invalid_source :: string where
  "invalid_source = ''Invalid source: must be 1, 2, 3, 4 or C1, C2, C3, C4, MATH.''"

definition sanitized :: "env \<Rightarrow> val \<Rightarrow> error + val" where
  "sanitized env source =
     (case source of
        Str name \<Rightarrow> sum_then (sanitize_source env name) (\<lambda>name'. Inr (Str name'))
      | _ \<Rightarrow> Inr source)"

fun acquisition_sample_size :: "env \<Rightarrow> nat \<Rightarrow> val \<Rightarrow> val action" where
  "acquisition_sample_size env depth source =
     and_then (lift (sanitized env source)) (\<lambda>source.
       if source \<in> set [Num 1, Str ''C1''] then property_get env acquisition_sample_size_c1
       else if source \<in> set [Num 2, Str ''C2''] then property_get env acquisition_sample_size_c2
       else if source \<in> set [Num 3, Str ''C3''] then property_get env acquisition_sample_size_c3
       else if source \<in> set [Num 4, Str ''C4''] then property_get env acquisition_sample_size_c4
       else if source = Str ''MATH'' then
         and_then (property_get env (math_define env)) (\<lambda>md.
         and_then (lift (py_getitem md 1)) (\<lambda>math_define.
         and_then (lift (re_match math_define)) (\<lambda>m.
           (case m of
              None \<Rightarrow> raise AttributeError
            | Some (group1, group2) \<Rightarrow>
                (case depth of
                   0 \<Rightarrow> raise RecursionError
                 | Suc d \<Rightarrow>
                     and_then (acquisition_sample_size env d (Str group1)) (\<lambda>a.
                     and_then (acquisition_sample_size env d (Str group2)) (\<lambda>b.
                     lift (py_min a b))))))))
       else raise (ValueError invalid_source))"

text \<open>
  A preamble is a Python dictionary from field names to values; a field that the driver
  sets to \<^verbatim>\<open>None\<close> holds \<open>None\<close>.
\<close>

type_synonym preamble = "string \<rightharpoonup> val option"

text \<open>\<^verbatim>\<open>preamble[key]\<close> and \<^verbatim>\<open>v[0]\<close> on a value that may be \<^verbatim>\<open>None\<close>.\<close>

definition lookup :: "preamble \<Rightarrow> string \<Rightarrow> error + val option" where
  "lookup p k = (case p k of None \<Rightarrow> Inl KeyError | Some v \<Rightarrow> Inr v)"

definition first_item :: "val option \<Rightarrow> error + val" where
  "first_item v = (case v of None \<Rightarrow> Inl TypeError | Some x \<Rightarrow> py_getitem x 0)"

text \<open>\<^verbatim>\<open>self.ch(self.waveform_source).<property>\<close>.\<close>

definition ch_property :: "env \<Rightarrow> descriptor \<Rightarrow> val action" where
  "ch_property env d =
     and_then (attr waveform_source) (\<lambda>source.
     and_then (lift (ch env source)) (\<lambda>n.
     property_get env (of_channel env n d)))"

text \<open>\<^verbatim>\<open>_fill_yaxis_preamble\<close>.\<close>

definition fill_yaxis_preamble :: "env \<Rightarrow> preamble option \<Rightarrow> preamble action" where
  "fill_yaxis_preamble env preamble =
     (let preamble = (case preamble of None \<Rightarrow> Map.empty | Some p \<Rightarrow> p) in
      and_then (attr waveform_source) (\<lambda>source.
        if source = Str ''MATH'' then
          and_then (property_get env (math_vdiv env)) (\<lambda>ydiv.
          and_then (property_get env (math_vpos env)) (\<lambda>yoffset.
          ret (preamble(''ydiv'' \<mapsto> Some ydiv, ''yoffset'' \<mapsto> Some yoffset, ''unit'' \<mapsto> None))))
        else
          and_then (ch_property env (channel_scale env)) (\<lambda>ydiv.
          and_then (ch_property env (channel_offset env)) (\<lambda>yoffset.
          and_then (ch_property env channel_unit) (\<lambda>unit.
          ret (preamble(''ydiv'' \<mapsto> Some ydiv, ''yoffset'' \<mapsto> Some yoffset,
                        ''unit'' \<mapsto> Some unit)))))))"

text \<open>The dictionary display that opens \<^verbatim>\<open>waveform_preamble\<close>: its items are evaluated
  in the order in which they are written.\<close>

definition read_preamble :: "env \<Rightarrow> preamble action" where
  "read_preamble env =
     and_then (ask_values env ''WFSU?'') (\<lambda>vals.
     and_then (lift (item_after vals (Str ''SP''))) (\<lambda>sparsing.
     and_then (lift (item_after vals (Str ''NP''))) (\<lambda>requested_points.
     and_then (lift (item_after vals (Str ''FP''))) (\<lambda>first_point.
     and_then (attr waveform_source) (\<lambda>source.
     and_then (property_get env acquisition_type) (\<lambda>acq_type.
     and_then (property_get env acquisition_sampling_rate) (\<lambda>sampling_rate.
     and_then (attr grid_number) (\<lambda>grid.
     and_then (property_get env acquisition_status) (\<lambda>status.
     and_then (property_get env memory_size) (\<lambda>memory.
     and_then (property_get env (timebase_scale env)) (\<lambda>xdiv.
     and_then (property_get env (timebase_offset env)) (\<lambda>xoffset.
     ret [''sparsing'' \<mapsto> Some sparsing,
          ''requested_points'' \<mapsto> Some requested_points,
          ''first_point'' \<mapsto> Some first_point,
          ''transmitted_points'' \<mapsto> None,
          ''source'' \<mapsto> Some source,
          ''type'' \<mapsto> Some acq_type,
          ''sampling_rate'' \<mapsto> Some sampling_rate,
          ''grid_number'' \<mapsto> Some grid,
          ''status'' \<mapsto> Some status,
          ''memory_size'' \<mapsto> Some memory,
          ''xdiv'' \<mapsto> Some xdiv,
          ''xoffset'' \<mapsto> Some xoffset]))))))))))))"

text \<open>\<^verbatim>\<open>self.acquisition_average if preamble["type"][0] == "average" else None\<close>: the
  condition is evaluated first.\<close>

definition read_average :: "env \<Rightarrow> preamble \<Rightarrow> (val option) action" where
  "read_average env preamble =
     and_then (lift (lookup preamble ''type'')) (\<lambda>acq_type.
     and_then (lift (first_item acq_type)) (\<lambda>tag.
       if tag = Str ''average''
       then and_then (property_get env acquisition_average) (\<lambda>a. ret (Some a))
       else ret None))"

definition waveform_sources :: value_spec where
  "waveform_sources = ValueList [Str ''C1'', Str ''C2'', Str ''C3'', Str ''C4'', Str ''MATH'']"

text \<open>\<^verbatim>\<open>waveform_preamble\<close>.\<close>

definition waveform_preamble :: "env \<Rightarrow> nat \<Rightarrow> preamble action" where
  "waveform_preamble env depth =
     and_then (read_preamble env) (\<lambda>preamble.
     and_then (read_average env preamble) (\<lambda>average.
     and_then (attr waveform_source) (\<lambda>source.
     and_then (lift (strict_discrete_set source waveform_sources)) (\<lambda>_.
     and_then (attr waveform_source) (\<lambda>source.
     and_then (acquisition_sample_size env depth source) (\<lambda>sampled_points.
     fill_yaxis_preamble env
       (Some (preamble(''average'' \<mapsto> average, ''sampled_points'' \<mapsto> Some sampled_points)))))))))"

text \<open>The write commands of a property among a sequence of transmitted commands.\<close>

definition writes_of :: "descriptor \<Rightarrow> cmd list \<Rightarrow> cmd list" where
  "writes_of d cs =
     filter (\<lambda>c. case c of Write w t \<Rightarrow> set_command d = Some w | Query q \<Rightarrow> False) cs"

text \<open>The write template of a transmitted command, and the templates of the properties
  whose argument is given, in the order of the properties.\<close>

definition write_template :: "cmd \<Rightarrow> string option" where
  "write_template c = (case c of Write w t \<Rightarrow> Some w | Query q \<Rightarrow> None)"

definition requested :: "(descriptor \<times> val option) list \<Rightarrow> string option list" where
  "requested props = map (\<lambda>(d, arg). set_command d) (filter (\<lambda>(d, arg). arg \<noteq> None) props)"

text \<open>An action transmits the write templates \<open>ts\<close>: it transmits writes only, with these
  templates in this order; all of them when it returns, the first ones when it raises.\<close>

definition transmits :: "unit action \<Rightarrow> string option list \<Rightarrow> bool" where
  "transmits m ts =
     (\<forall>s r s'. m s = (r, s') \<longrightarrow>
        (\<exists>ws rest. sent s' = sent s @ ws \<and> ts = map write_template ws @ rest \<and>
           (r = Inr () \<longrightarrow> rest = [])))"

text \<open>\<open>v\<close> is the element right after the first occurrence of \<open>marker\<close> in \<open>vals\<close>.\<close>

definition follows_first :: "val list \<Rightarrow> val \<Rightarrow> val \<Rightarrow> bool" where
  "follows_first vals marker v =
     (\<exists>i. i < length vals \<and> vals ! i = marker \<and> (\<forall>j < i. vals ! j \<noteq> marker) \<and>
          Suc i < length vals \<and> vals ! Suc i = v)"

text \<open>An action that leaves the attributes of the session as they are; it may transmit.\<close>

definition keeps_attributes :: "'a action \<Rightarrow> bool" where
  "keeps_attributes m =
     (\<forall>s. waveform_source (snd (m s)) = waveform_source s \<and>
          grid_number (snd (m s)) = grid_number s)"

section \<open>The minimum interval between two commands\<close>

text \<open>
  Modelled from the spec: the rate limiter of the session. The driver documents
  \<^verbatim>\<open>WRITE_INTERVAL_S\<close> and inherits the \<^verbatim>\<open>write\<close> method that enforces it. Before
  transmitting, the accessor computes the time elapsed since the last transmission on a
  monotonic clock and sleeps for the remaining deficit, if any. The limiter state belongs to
  the session: the reading of the clock, the time of the last transmission (\<open>None\<close> before
  the first), and, for the statement of the property, the times of all transmissions.

  What the program does not decide is a parameter of each command: the time that passes
  before the caller issues it (\<open>idle\<close>), and the time by which a sleep lasts longer than
  requested (\<open>late\<close>); a sleep never ends early.
\<close>

record limiter =
  clock :: real
  last_write :: "real option"
  transmitted :: "real list"

definition WRITE_INTERVAL_S :: real where
  "WRITE_INTERVAL_S = 1 / 100"

definition deficit :: "real \<Rightarrow> real \<Rightarrow> real option \<Rightarrow> real" where
  "deficit interval t lw =
     (case lw of
        None \<Rightarrow> 0
      | Some t0 \<Rightarrow> (if t - t0 < interval then interval - (t - t0) else 0))"

definition rate_limited_write :: "real \<Rightarrow> real \<times> real \<Rightarrow> limiter \<Rightarrow> limiter" where
  "rate_limited_write interval delays l =
     (let t = clock l + fst delays;
          wait = deficit interval t (last_write l);
          t' = (if 0 < wait then t + wait + snd delays else t)
      in \<lparr>clock = t', last_write = Some t', transmitted = transmitted l @ [t']\<rparr>)"

text \<open>A run of the session: one command after the other.\<close>

definition run_writes :: "real \<Rightarrow> (real \<times> real) list \<Rightarrow> limiter \<Rightarrow> limiter" where
  "run_writes interval schedule l = foldl (\<lambda>l d. rate_limited_write interval d l) l schedule"

definition new_session :: limiter where
  "new_session = \<lparr>clock = 0, last_write = None, transmitted = []\<rparr>"

text \<open>The gaps between consecutive elements of a list of times.\<close>

fun gaps :: "real list \<Rightarrow> real list" where
  "gaps (a # b # ts) = (b - a) # gaps (b # ts)"
| "gaps ts = []"

section \<open>A concrete instrument\<close>

text \<open>
  An instance of the parameters, on which the model can be run: an oscilloscope that
  averages 16 acquisitions, whose math channel multiplies channels 1 and 3, and whose two
  converters hold 7000000 and 3500000 samples.
\<close>

definition bench_reply :: "string \<Rightarrow> val list" where
  "bench_reply q =
     (if q = ''WFSU?'' then [Str ''SP'', Num 1, Str ''NP'', Num 0, Str ''FP'', Num 0]
      else if q = ''ACQW?'' then [Str ''AVERAGE'', Num 16]
      else if q = ''AVGA?'' then [Num 16]
      else if q = ''SARA?'' then [Num 1000000000]
      else if q = ''SAST?'' then [Str ''Stop'']
      else if q = ''MSIZ?'' then [Str ''7M'']
      else if q = ''TDIV?'' then [Num (1 / 1000)]
      else if q = ''TRDL?'' then [Num 0]
      else if q = ''SANU? C1'' then [Num 7000000]
      else if q = ''SANU? C3'' then [Num 3500000]
      else if q = ''DEF?'' then [Str ''EQN'', Str ([quote] @ ''C1*C3'' @ [quote])]
      else if q = ''MTVD?'' then [Num (1 / 2)]
      else if q = ''MTVP?'' then [Num 0]
      else if q = ''C2:VDIV?'' then [Num (1 / 5)]
      else if q = ''C2:OFST?'' then [Num (- 1)]
      else if q = ''C2:UNIT?'' then [Str ''V'']
      else [])"

definition bench_device :: "cmd list \<Rightarrow> error + val list" where
  "bench_device h =
     (case rev h of
        Query q # _ \<Rightarrow> Inr (bench_reply q)
      | _ \<Rightarrow> Inr [])"

definition bench_sanitize_source :: "string \<Rightarrow> error + string" where
  "bench_sanitize_source name =
     (if name \<in> set [''C1'', ''C2'', ''C3'', ''C4'', ''C5'', ''MATH'', ''LINE'']
      then Inr name else Inl (ValueError ''source not recognized''))"

definition bench_ch :: "val \<Rightarrow> error + nat" where
  "bench_ch source =
     (if source \<in> set [Num 1, Str ''C1''] then Inr 1
      else if source \<in> set [Num 2, Str ''C2''] then Inr 2
      else if source \<in> set [Num 3, Str ''C3''] then Inr 3
      else if source \<in> set [Num 4, Str ''C4''] then Inr 4
      else Inl (ValueError ''Invalid source''))"

definition bench_channel_command :: "nat \<Rightarrow> string \<Rightarrow> string" where
  "bench_channel_command n c =
     ''C'' @ [char_of (48 + n)] @ '':'' @ c"

definition bench :: env where
  "bench =
     \<lparr>device = bench_device,
      sanitize_source = bench_sanitize_source,
      ch = bench_ch,
      channel_command = bench_channel_command,
      math_define = control ''DEF?'' ''DEF EQN,%s'' accept_any NoValues False Inr,
      math_vdiv = control ''MTVD?'' ''MTVD %.2EV'' accept_any NoValues False Inr,
      math_vpos = control ''MTVP?'' ''MTVP %d'' accept_any NoValues False Inr,
      timebase_scale = control ''TDIV?'' ''TDIV %.2ES'' strict_range
                         (ValueList [Num (1 / 10 ^ 9), Num 100]) False Inr,
      timebase_offset = control ''TRDL?'' ''TRDL %.2ES'' accept_any NoValues False Inr,
      channel_scale = control ''VDIV?'' ''VDIV %.2EV'' accept_any NoValues False Inr,
      channel_offset = control ''OFST?'' ''OFST %.2EV'' accept_any NoValues False Inr\<rparr>"

text \<open>The session after start-up, with a given waveform source.\<close>

definition session :: "val \<Rightarrow> scope" where
  "session source = \<lparr>waveform_source = source, grid_number = Num 14, sent = []\<rparr>"

text \<open>An instrument whose math definition comes without its quotes.\<close>

definition unquoted :: env where
  "unquoted = bench\<lparr>device := \<lambda>h. Inr [Str ''EQN'', Str ''C1*C3'']\<rparr>"

text \<open>An instrument whose reply to \<^verbatim>\<open>WFSU?\<close> ends at the marker \<^verbatim>\<open>SP\<close>.\<close>

definition cut_device :: "cmd list \<Rightarrow> error + val list" where
  "cut_device h =
     (case rev h of
        Query q # _ \<Rightarrow> Inr (if q = ''WFSU?'' then [Str ''SP''] else bench_reply q)
      | _ \<Rightarrow> Inr [])"

definition cut_bench :: env where
  "cut_bench = bench\<lparr>device := cut_device\<rparr>"

text \<open>An instrument that answers \<^verbatim>\<open>ACQW?\<close> with the one token \<^verbatim>\<open>AVERAGE\<close>.\<close>

definition plain_average_device :: "cmd list \<Rightarrow> error + val list" where
  "plain_average_device h =
     (case rev h of
        Query q # _ \<Rightarrow> Inr (if q = ''ACQW?'' then [Str ''AVERAGE''] else bench_reply q)
      | _ \<Rightarrow> Inr [])"

definition plain_average_bench :: env where
  "plain_average_bench = bench\<lparr>device := plain_average_device\<rparr>"

text \<open>An instrument in the normal acquisition mode.\<close>

definition sampling_device :: "cmd list \<Rightarrow> error + val list" where
  "sampling_device h =
     (case rev h of
        Query q # _ \<Rightarrow> Inr (if q = ''ACQW?'' then [Str ''SAMPLING''] else bench_reply q)
      | _ \<Rightarrow> Inr [])"

definition sampling_bench :: env where
  "sampling_bench = bench\<lparr>device := sampling_device\<rparr>"

section \<open>Basic facts\<close>

declare acquisition_sample_size.simps [simp del]

lemma and_then_Inr:
  "and_then m f s = (Inr y, s') \<longleftrightarrow> (\<exists>x s1. m s = (Inr x, s1) \<and> f x s1 = (Inr y, s'))"
  by (auto simp: and_then_def split: prod.splits sum.splits)

lemma and_then_ok: "m s = (Inr x, s1) \<Longrightarrow> and_then m f s = f x s1"
  by (simp add: and_then_def)

lemma and_then_fail: "m s = (Inl e, s1) \<Longrightarrow> and_then m f s = (Inl e, s1)"
  by (simp add: and_then_def)

lemma lift_apply: "lift r s = (r, s)"
  by (simp add: lift_def)

lemma ret_apply: "ret x s = (Inr x, s)"
  by (simp add: ret_def)

lemma raise_apply: "raise e s = (Inl e, s)"
  by (simp add: raise_def)

lemma attr_apply: "attr f s = (Inr (f s), s)"
  by (simp add: attr_def)

lemma and_then_lift:
  "and_then (lift r) f s = (case r of Inl e \<Rightarrow> (Inl e, s) | Inr x \<Rightarrow> f x s)"
  by (simp add: and_then_def lift_def split: sum.splits)

lemma and_then_attr: "and_then (attr g) f s = f (g s) s"
  by (simp add: and_then_def attr_def)

subsection \<open>The pattern, stated on the string\<close>

lemma operator_not_word: "is_operator c \<Longrightarrow> \<not> is_word c"
  by (auto simp: is_operator_def is_word_def)

lemma quote_not_word: "\<not> is_word quote"
  by (simp add: is_word_def quote_def)

lemma word_run:
  assumes "\<forall>c \<in> set a. is_word c" and "\<not> is_word x"
  shows "takeWhile is_word (a @ x # r) = a" and "dropWhile is_word (a @ x # r) = x # r"
  using assms by (simp_all add: takeWhile_tail dropWhile_append3)

lemma match_math_SomeD:
  assumes "match_math cs = Some (a, b)"
  shows "\<exists>op rest. cs = [quote] @ a @ [op] @ b @ [quote] @ rest \<and> a \<noteq> [] \<and> b \<noteq> [] \<and>
        (\<forall>c \<in> set a. is_word c) \<and> (\<forall>c \<in> set b. is_word c) \<and> is_operator op"
proof -
  from assms obtain r op r2 rest where cs: "cs = quote # r"
    and a: "a = takeWhile is_word r" "a \<noteq> []"
    and r1: "dropWhile is_word r = op # r2" and op: "is_operator op"
    and b: "b = takeWhile is_word r2" "b \<noteq> []"
    and r3: "dropWhile is_word r2 = quote # rest"
    by (auto simp: match_math_def Let_def split: list.splits if_splits)
  have "r = a @ op # r2"
    using a(1) r1 takeWhile_dropWhile_id [of is_word r] by simp
  moreover have "r2 = b @ quote # rest"
    using b(1) r3 takeWhile_dropWhile_id [of is_word r2] by simp
  moreover have "\<forall>c \<in> set a. is_word c" "\<forall>c \<in> set b. is_word c"
    using a(1) b(1) by (auto dest: set_takeWhileD)
  ultimately show ?thesis
    using cs a(2) b(2) op by auto
qed

lemma match_math_SomeI:
  assumes "cs = [quote] @ a @ [op] @ b @ [quote] @ rest" and "a \<noteq> []" and "b \<noteq> []"
    and "\<forall>c \<in> set a. is_word c" and "\<forall>c \<in> set b. is_word c" and "is_operator op"
  shows "match_math cs = Some (a, b)"
proof -
  have 1: "takeWhile is_word (a @ op # b @ quote # rest) = a"
    and 2: "dropWhile is_word (a @ op # b @ quote # rest) = op # b @ quote # rest"
    using word_run [OF assms(4) operator_not_word [OF assms(6)]] by simp_all
  have 3: "takeWhile is_word (b @ quote # rest) = b"
    and 4: "dropWhile is_word (b @ quote # rest) = quote # rest"
    using word_run [OF assms(5) quote_not_word] by simp_all
  show ?thesis
    using assms(2,3,6) by (simp add: match_math_def assms(1) 1 2 3 4)
qed

text \<open>A string matches exactly when it starts with a quote, a non-empty word, one of the
  four operators, a non-empty word and a quote; the groups are the two words.\<close>

lemma match_math_iff:
  "match_math cs = Some (a, b) \<longleftrightarrow>
     (\<exists>op rest. cs = [quote] @ a @ [op] @ b @ [quote] @ rest \<and> a \<noteq> [] \<and> b \<noteq> [] \<and>
        (\<forall>c \<in> set a. is_word c) \<and> (\<forall>c \<in> set b. is_word c) \<and> is_operator op)"
  using match_math_SomeD match_math_SomeI by blast

subsection \<open>Attributes are kept\<close>

lemma keeps_and_then:
  "keeps_attributes m \<Longrightarrow> (\<And>x. keeps_attributes (f x)) \<Longrightarrow> keeps_attributes (and_then m f)"
  unfolding keeps_attributes_def and_then_def
  by (auto split: prod.splits sum.splits) (metis snd_conv)+

lemma keeps_basic:
  "keeps_attributes (lift r)" "keeps_attributes (ret x)" "keeps_attributes (raise e)"
  "keeps_attributes (attr g)" "keeps_attributes (transmit env c)"
  "keeps_attributes (ask_values env q)"
  by (simp_all add: keeps_attributes_def lift_def ret_def raise_def attr_def transmit_def
      ask_values_def)

lemma keeps_property_get: "keeps_attributes (property_get env d)"
  by (simp add: property_get_def keeps_and_then keeps_basic)

lemma keeps_property_set: "keeps_attributes (property_set env d v)"
  by (auto simp: property_set_def keeps_basic split: option.splits intro!: keeps_and_then)

lemma keeps_acquisition_sample_size:
  "keeps_attributes (acquisition_sample_size env depth source)"
proof (induction depth arbitrary: source)
  case 0
  show ?case
    by (subst acquisition_sample_size.simps)
      (auto simp: keeps_basic keeps_property_get split: option.splits
        intro!: keeps_and_then)
next
  case (Suc depth)
  show ?case
    by (subst acquisition_sample_size.simps)
      (auto simp: keeps_basic keeps_property_get Suc split: option.splits
        intro!: keeps_and_then)
qed

lemma keeps_read_preamble: "keeps_attributes (read_preamble env)"
  unfolding read_preamble_def
  by (intro keeps_and_then keeps_basic keeps_property_get)

lemma keeps_read_average: "keeps_attributes (read_average env p)"
  unfolding read_average_def
  by (auto simp: keeps_basic keeps_property_get intro!: keeps_and_then)

lemma keepsD:
  "keeps_attributes m \<Longrightarrow> m s = (r, s') \<Longrightarrow>
     waveform_source s' = waveform_source s \<and> grid_number s' = grid_number s"
  unfolding keeps_attributes_def by (metis snd_conv)

section \<open>The sample size of a source\<close>

text \<open>
  Claim C3. In every state of the session the sample size read for channel 1 is the one
  read for channel 2, and the one read for channel 3 is the one read for channel 4: the
  two accessors of a pair carry the same query, so they transmit the same command and
  return the same value and the same state, also through \<^verbatim>\<open>acquisition_sample_size\<close>.
\<close>

theorem shared_adc:
  "get_command acquisition_sample_size_c1 = get_command acquisition_sample_size_c2 \<and>
   get_command acquisition_sample_size_c3 = get_command acquisition_sample_size_c4 \<and>
   property_get env acquisition_sample_size_c1 s = property_get env acquisition_sample_size_c2 s \<and>
   property_get env acquisition_sample_size_c3 s = property_get env acquisition_sample_size_c4 s \<and>
   acquisition_sample_size env depth (Num 1) s = acquisition_sample_size env depth (Num 2) s \<and>
   acquisition_sample_size env depth (Num 3) s = acquisition_sample_size env depth (Num 4) s"
  by (simp add: acquisition_sample_size_c1_def acquisition_sample_size_c2_def
      acquisition_sample_size_c3_def acquisition_sample_size_c4_def sanitized_def and_then_lift
      acquisition_sample_size.simps)

text \<open>
  Claim C7. A source that, once a string has gone through \<^verbatim>\<open>sanitize_source\<close>, is none of
  1, 2, 3, 4, \<^verbatim>\<open>C1\<close>, \<^verbatim>\<open>C2\<close>, \<^verbatim>\<open>C3\<close>, \<^verbatim>\<open>C4\<close>, \<^verbatim>\<open>MATH\<close> makes \<^verbatim>\<open>acquisition_sample_size\<close>
  raise \<^verbatim>\<open>ValueError\<close> with the message
  \<^verbatim>\<open>Invalid source: must be 1, 2, 3, 4 or C1, C2, C3, C4, MATH.\<close>; the session is returned
  as it was, so no command has been transmitted.
\<close>

theorem invalid_source_rejected:
  assumes "sanitized env source = Inr v"
    and "v \<notin> set [Num 1, Num 2, Num 3, Num 4,
                    Str ''C1'', Str ''C2'', Str ''C3'', Str ''C4'', Str ''MATH'']"
  shows "acquisition_sample_size env depth source s = (Inl (ValueError invalid_source), s) \<and>
         invalid_source =
           ''Invalid source: '' @ ''must be 1, 2, 3, 4 or C1, C2, C3, C4, MATH'' @ ''.''"
  using assms
  by (simp add: acquisition_sample_size.simps and_then_lift raise_apply invalid_source_def)

theorem invalid_source_rejected_witness:
  "sanitized bench (Str ''LINE'') = Inr (Str ''LINE'') \<and>
   Str ''LINE'' \<notin> set [Num 1, Num 2, Num 3, Num 4,
                    Str ''C1'', Str ''C2'', Str ''C3'', Str ''C4'', Str ''MATH''] \<and>
   acquisition_sample_size bench 3 (Str ''LINE'') (session (Str ''C1'')) =
     (Inl (ValueError invalid_source), session (Str ''C1''))"
proof -
  have 1: "sanitized bench (Str ''LINE'') = Inr (Str ''LINE'')"
    by (simp add: sanitized_def sum_then_def bench_def bench_sanitize_source_def)
  have 2: "Str ''LINE'' \<notin> set [Num 1, Num 2, Num 3, Num 4,
                    Str ''C1'', Str ''C2'', Str ''C3'', Str ''C4'', Str ''MATH'']"
    by simp
  show ?thesis
    using 1 2 invalid_source_rejected [OF 1 2] by simp
qed

text \<open>
  Claim C8. When the source is \<^verbatim>\<open>MATH\<close> and the math definition is a string that the pattern
  does not match, \<^verbatim>\<open>acquisition_sample_size\<close> fails with the \<^verbatim>\<open>AttributeError\<close> of
  \<^verbatim>\<open>match.group\<close> on \<^verbatim>\<open>None\<close>, whatever the recursion depth left, after the one query
  of the definition; this is not the \<^verbatim>\<open>ValueError\<close> of the source check.
\<close>

theorem malformed_definition:
  assumes "sanitized env source = Inr (Str ''MATH'')"
    and "property_get env (math_define env) s = (Inr md, s1)"
    and "py_getitem md 1 = Inr (Str d)"
    and "match_math d = None"
  shows "acquisition_sample_size env depth source s = (Inl AttributeError, s1) \<and>
         AttributeError \<noteq> ValueError invalid_source"
  using assms by (simp add: acquisition_sample_size.simps and_then_lift and_then_ok raise_apply)

theorem malformed_definition_witness:
  "sanitized unquoted (Str ''MATH'') = Inr (Str ''MATH'') \<and>
   property_get unquoted (math_define unquoted) (session (Str ''MATH'')) =
     (Inr (List [Str ''EQN'', Str ''C1*C3'']), (session (Str ''MATH''))\<lparr>sent := [Query ''DEF?'']\<rparr>) \<and>
   py_getitem (List [Str ''EQN'', Str ''C1*C3'']) 1 = Inr (Str ''C1*C3'') \<and>
   match_math ''C1*C3'' = None \<and>
   acquisition_sample_size unquoted 5 (Str ''MATH'') (session (Str ''MATH'')) =
     (Inl AttributeError, (session (Str ''MATH''))\<lparr>sent := [Query ''DEF?'']\<rparr>)"
proof -
  have 1: "sanitized unquoted (Str ''MATH'') = Inr (Str ''MATH'')"
    by (simp add: sanitized_def sum_then_def unquoted_def bench_def bench_sanitize_source_def)
  have 2: "property_get unquoted (math_define unquoted) (session (Str ''MATH'')) =
     (Inr (List [Str ''EQN'', Str ''C1*C3'']), (session (Str ''MATH''))\<lparr>sent := [Query ''DEF?'']\<rparr>)"
    by (simp add: property_get_def ask_values_def transmit_def and_then_def lift_def
        translate_reply_def unquoted_def bench_def control_def session_def)
  have 3: "py_getitem (List [Str ''EQN'', Str ''C1*C3'']) 1 = Inr (Str ''C1*C3'')"
    by simp
  have 4: "match_math ''C1*C3'' = None"
    by (simp add: match_math_def quote_def)
  show ?thesis
    using 1 2 3 4 malformed_definition [OF 1 2 3 4, of 5] by simp
qed

subsection \<open>The branch of the math channel\<close>

lemma py_min_Num: "py_min (Num x) (Num y) = Inr (Num (min x y))"
  by (simp add: py_min_def min_def)

lemma sanitized_MATH:
  "sanitize_source env ''MATH'' = Inr ''MATH'' \<Longrightarrow> sanitized env (Str ''MATH'') = Inr (Str ''MATH'')"
  by (simp add: sanitized_def sum_then_def)

lemma sample_size_math:
  assumes "sanitized env source = Inr (Str ''MATH'')"
    and "property_get env (math_define env) s = (Inr md, s1)"
    and "py_getitem md 1 = Inr (Str d)"
    and "match_math d = Some (a, b)"
    and "acquisition_sample_size env depth (Str a) s1 = (Inr x, s2)"
    and "acquisition_sample_size env depth (Str b) s2 = (Inr y, s3)"
  shows "acquisition_sample_size env (Suc depth) source s = (py_min x y, s3)"
  using assms 
  by (simp add: and_then_lift and_then_ok raise_apply lift_apply
        acquisition_sample_size.simps[of env "Suc depth"])

lemma sample_size_math_returns:
  assumes "sanitized env source = Inr (Str ''MATH'')"
    and "acquisition_sample_size env depth source s = (Inr m, s3)"
  shows "\<exists>n md s1 d a b x s2 y. depth = Suc n \<and>
           property_get env (math_define env) s = (Inr md, s1) \<and>
           py_getitem md 1 = Inr (Str d) \<and> match_math d = Some (a, b) \<and>
           acquisition_sample_size env n (Str a) s1 = (Inr x, s2) \<and>
           acquisition_sample_size env n (Str b) s2 = (Inr y, s3) \<and>
           py_min x y = Inr m"
proof -
  have "sanitized env source = Inr (Str ''MATH'')" by fact
  with assms(2) have "and_then (property_get env (math_define env)) (\<lambda>md.
         and_then (lift (py_getitem md 1)) (\<lambda>math_define.
         and_then (lift (re_match math_define)) (\<lambda>m.
           (case m of
              None \<Rightarrow> raise AttributeError
            | Some (group1, group2) \<Rightarrow>
                (case depth of
                   0 \<Rightarrow> raise RecursionError
                 | Suc d \<Rightarrow>
                     and_then (acquisition_sample_size env d (Str group1)) (\<lambda>a.
                     and_then (acquisition_sample_size env d (Str group2)) (\<lambda>b.
                     lift (py_min a b)))))))) s = (Inr m, s3)"
    by (simp add: acquisition_sample_size.simps [of env depth] and_then_lift)
  then obtain md s1 dv mm where
    md: "property_get env (math_define env) s = (Inr md, s1)"
    and dv: "py_getitem md 1 = Inr dv" and mm: "re_match dv = Inr mm"
    and rest: "(case mm of None \<Rightarrow> raise AttributeError
        | Some (group1, group2) \<Rightarrow>
           (case depth of 0 \<Rightarrow> raise RecursionError
            | Suc d \<Rightarrow> and_then (acquisition_sample_size env d (Str group1)) (\<lambda>a.
                and_then (acquisition_sample_size env d (Str group2)) (\<lambda>b. lift (py_min a b))))) s1
       = (Inr m, s3)"
    by (auto simp: and_then_Inr lift_apply)
  from mm obtain d where d: "dv = Str d" "mm = match_math d"
    by (cases dv) auto
  from rest obtain a b where ab: "mm = Some (a, b)"
    by (cases mm) (auto simp: raise_apply)
  from rest ab obtain n where n: "depth = Suc n"
    by (cases depth) (auto simp: raise_apply)
  from rest ab n obtain x s2 y where
    x: "acquisition_sample_size env n (Str a) s1 = (Inr x, s2)"
    and y: "acquisition_sample_size env n (Str b) s2 = (Inr y, s3)"
    and m: "py_min x y = Inr m"
    by (auto simp: and_then_Inr lift_apply)
  from d ab have "match_math d = Some (a, b)" by simp
  moreover from dv d have "py_getitem md 1 = Inr (Str d)" by simp
  ultimately show ?thesis
    using md n x y m by blast
qed

lemma waveform_preamble_returns:
  assumes "waveform_preamble env depth s = (Inr p, s')"
  shows "\<exists>p0 s0 avg sa n s3.
           read_preamble env s = (Inr p0, s0) \<and> read_average env p0 s0 = (Inr avg, sa) \<and>
           waveform_source sa = waveform_source s \<and>
           waveform_source s \<in> set (members waveform_sources) \<and>
           acquisition_sample_size env depth (waveform_source s) sa = (Inr n, s3) \<and>
           waveform_source s3 = waveform_source s \<and>
           fill_yaxis_preamble env
             (Some (p0(''average'' \<mapsto> avg, ''sampled_points'' \<mapsto> Some n))) s3 = (Inr p, s')"
proof -
  from assms obtain p0 s0 avg sa n s3 where
    1: "read_preamble env s = (Inr p0, s0)" and 2: "read_average env p0 s0 = (Inr avg, sa)"
    and 3: "strict_discrete_set (waveform_source sa) waveform_sources = Inr (waveform_source sa)"
    and 4: "acquisition_sample_size env depth (waveform_source sa) sa = (Inr n, s3)"
    and 5: "fill_yaxis_preamble env
             (Some (p0(''average'' \<mapsto> avg, ''sampled_points'' \<mapsto> Some n))) s3 = (Inr p, s')"
    unfolding waveform_preamble_def
    by (auto simp: and_then_Inr attr_apply lift_apply strict_discrete_set_def split: if_splits)
  have a: "waveform_source s0 = waveform_source s"
    using keepsD [OF keeps_read_preamble 1] by simp
  have b: "waveform_source sa = waveform_source s0"
    using keepsD [OF keeps_read_average 2] by simp
  have c: "waveform_source s3 = waveform_source sa"
    using keepsD [OF keeps_acquisition_sample_size 4] by simp
  from 3 have "waveform_source sa \<in> set (members waveform_sources)"
    by (simp add: strict_discrete_set_def split: if_splits)
  with 1 2 4 5 a b c show ?thesis by auto
qed

lemma fill_yaxis_other:
  assumes "fill_yaxis_preamble env (Some pre) s = (Inr p, s')"
    and "k \<noteq> ''ydiv''" and "k \<noteq> ''yoffset''" and "k \<noteq> ''unit''"
  shows "p k = pre k"
  using assms unfolding fill_yaxis_preamble_def
  by (auto simp: and_then_Inr attr_apply ret_apply and_then_attr split: if_splits)


text \<open>
  Claim C1. Let \<^verbatim>\<open>sanitize_source\<close> leave \<^verbatim>\<open>MATH\<close> as it is. When the math definition read
  from the instrument is a quoted \<open>a op b\<close> with two non-empty words and one of the four
  operators, and resolving \<open>a\<close> and then \<open>b\<close> returns the sample sizes \<open>x\<close> and \<open>y\<close>, then
  \<^verbatim>\<open>acquisition_sample_size\<close> of \<^verbatim>\<open>MATH\<close>, with one more level of recursion, returns
  \<open>min x y\<close>. Consequently every preamble that \<^verbatim>\<open>waveform_preamble\<close> returns for the source
  \<^verbatim>\<open>MATH\<close> holds in \<^verbatim>\<open>sampled_points\<close> the minimum of the sample sizes of the two operands
  of the definition that was read.
\<close>

theorem math_sample_size_is_min:
  assumes "sanitize_source env ''MATH'' = Inr ''MATH''"
  shows "(property_get env (math_define env) s = (Inr md, s1) \<and>
          py_getitem md 1 = Inr (Str ([quote] @ a @ [op] @ b @ [quote] @ rest)) \<and>
          a \<noteq> [] \<and> b \<noteq> [] \<and> (\<forall>c \<in> set a. is_word c) \<and> (\<forall>c \<in> set b. is_word c) \<and>
          is_operator op \<and>
          acquisition_sample_size env depth (Str a) s1 = (Inr (Num x), s2) \<and>
          acquisition_sample_size env depth (Str b) s2 = (Inr (Num y), s3)
          \<longrightarrow> acquisition_sample_size env (Suc depth) (Str ''MATH'') s =
                (Inr (Num (min x y)), s3)) \<and>
         (waveform_source t = Str ''MATH'' \<and> waveform_preamble env n t = (Inr p, t')
          \<longrightarrow> (\<exists>k md' d g1 g2 t0 t1 v t2 w t3 m.
                 n = Suc k \<and>
                 property_get env (math_define env) t0 = (Inr md', t1) \<and>
                 py_getitem md' 1 = Inr (Str d) \<and> match_math d = Some (g1, g2) \<and>
                 acquisition_sample_size env k (Str g1) t1 = (Inr v, t2) \<and>
                 acquisition_sample_size env k (Str g2) t2 = (Inr w, t3) \<and>
                 py_min v w = Inr m \<and>
                 (\<forall>x y. v = Num x \<and> w = Num y \<longrightarrow> m = Num (min x y)) \<and>
                 p ''sampled_points'' = Some (Some m)))"
proof (intro conjI impI)
  note san = sanitized_MATH [OF assms]
  assume h: "property_get env (math_define env) s = (Inr md, s1) \<and>
          py_getitem md 1 = Inr (Str ([quote] @ a @ [op] @ b @ [quote] @ rest)) \<and>
          a \<noteq> [] \<and> b \<noteq> [] \<and> (\<forall>c \<in> set a. is_word c) \<and> (\<forall>c \<in> set b. is_word c) \<and>
          is_operator op \<and>
          acquisition_sample_size env depth (Str a) s1 = (Inr (Num x), s2) \<and>
          acquisition_sample_size env depth (Str b) s2 = (Inr (Num y), s3)"
  then have "match_math ([quote] @ a @ [op] @ b @ [quote] @ rest) = Some (a, b)"
    by (intro match_math_SomeI [OF refl]) simp_all
  with h san show "acquisition_sample_size env (Suc depth) (Str ''MATH'') s =
                (Inr (Num (min x y)), s3)"
    using sample_size_math [of env "Str ''MATH''" s md s1 _ a b depth "Num x" s2 "Num y" s3]
    by (simp add: py_min_Num)
next
  note san = sanitized_MATH [OF assms]
  assume h: "waveform_source t = Str ''MATH'' \<and> waveform_preamble env n t = (Inr p, t')"
  then obtain p0 avg sa m t3 where
    size: "acquisition_sample_size env n (Str ''MATH'') sa = (Inr m, t3)"
    and fill: "fill_yaxis_preamble env
             (Some (p0(''average'' \<mapsto> avg, ''sampled_points'' \<mapsto> Some m))) t3 = (Inr p, t')"
    using waveform_preamble_returns [of env n t p t'] by auto
  from fill have p: "p ''sampled_points'' = Some (Some m)"
    using fill_yaxis_other [OF fill, of "''sampled_points''"] by simp
  from sample_size_math_returns [OF san size]
  obtain k md' t1 d g1 g2 v t2 w where
    "n = Suc k" "property_get env (math_define env) sa = (Inr md', t1)"
    "py_getitem md' 1 = Inr (Str d)" "match_math d = Some (g1, g2)"
    "acquisition_sample_size env k (Str g1) t1 = (Inr v, t2)"
    "acquisition_sample_size env k (Str g2) t2 = (Inr w, t3)"
    and m: "py_min v w = Inr m"
    by blast
  moreover from m have "\<forall>x y. v = Num x \<and> w = Num y \<longrightarrow> m = Num (min x y)"
    by (auto simp: py_min_Num)
  ultimately show "\<exists>k md' d g1 g2 t0 t1 v t2 w t3 m.
                 n = Suc k \<and>
                 property_get env (math_define env) t0 = (Inr md', t1) \<and>
                 py_getitem md' 1 = Inr (Str d) \<and> match_math d = Some (g1, g2) \<and>
                 acquisition_sample_size env k (Str g1) t1 = (Inr v, t2) \<and>
                 acquisition_sample_size env k (Str g2) t2 = (Inr w, t3) \<and>
                 py_min v w = Inr m \<and>
                 (\<forall>x y. v = Num x \<and> w = Num y \<longrightarrow> m = Num (min x y)) \<and>
                 p ''sampled_points'' = Some (Some m)"
    using p by blast
qed


theorem math_sample_size_is_min_witness:
  "sanitize_source bench ''MATH'' = Inr ''MATH'' \<and>
   property_get bench (math_define bench) (session (Str ''MATH'')) =
     (Inr (List [Str ''EQN'', Str ([quote] @ ''C1'' @ [CHR ''*''] @ ''C3'' @ [quote] @ [])]),
      (session (Str ''MATH''))\<lparr>sent := [Query ''DEF?'']\<rparr>) \<and>
   is_operator CHR ''*'' \<and> list_all is_word ''C1'' \<and> list_all is_word ''C3'' \<and>
   acquisition_sample_size bench 0 (Str ''C1'') ((session (Str ''MATH''))\<lparr>sent := [Query ''DEF?'']\<rparr>) =
     (Inr (Num 7000000),
      (session (Str ''MATH''))\<lparr>sent := [Query ''DEF?'', Query ''SANU? C1'']\<rparr>) \<and>
   acquisition_sample_size bench 0 (Str ''C3'')
       ((session (Str ''MATH''))\<lparr>sent := [Query ''DEF?'', Query ''SANU? C1'']\<rparr>) =
     (Inr (Num 3500000),
      (session (Str ''MATH''))\<lparr>sent := [Query ''DEF?'', Query ''SANU? C1'', Query ''SANU? C3'']\<rparr>) \<and>
   acquisition_sample_size bench 1 (Str ''MATH'') (session (Str ''MATH'')) =
     (Inr (Num 3500000),
      (session (Str ''MATH''))\<lparr>sent := [Query ''DEF?'', Query ''SANU? C1'', Query ''SANU? C3'']\<rparr>) \<and>
   waveform_source (session (Str ''MATH'')) = Str ''MATH'' \<and>
   \<not> isl (fst (waveform_preamble bench 1 (session (Str ''MATH'')))) \<and>
   (\<exists>v w m. py_min v w = Inr m \<and>
      projr (fst (waveform_preamble bench 1 (session (Str ''MATH'')))) ''sampled_points'' =
        Some (Some m)) \<and>
   projr (fst (waveform_preamble bench 1 (session (Str ''MATH'')))) ''sampled_points'' =
     Some (Some (Num 3500000))"
proof -
  let ?s = "session (Str ''MATH'')"
  let ?s1 = "?s\<lparr>sent := [Query ''DEF?'']\<rparr>"
  let ?s2 = "?s\<lparr>sent := [Query ''DEF?'', Query ''SANU? C1'']\<rparr>"
  let ?s3 = "?s\<lparr>sent := [Query ''DEF?'', Query ''SANU? C1'', Query ''SANU? C3'']\<rparr>"
  let ?md = "List [Str ''EQN'', Str ([quote] @ ''C1'' @ [CHR ''*''] @ ''C3'' @ [quote] @ [])]"
  let ?X = "waveform_preamble bench 1 ?s"
  have 1: "sanitize_source bench ''MATH'' = Inr ''MATH''"
    by (simp add: bench_def bench_sanitize_source_def)
  have 2: "property_get bench (math_define bench) ?s = (Inr ?md, ?s1)"
    by code_simp
  have 3: "py_getitem ?md 1 = Inr (Str ([quote] @ ''C1'' @ [CHR ''*''] @ ''C3'' @ [quote] @ []))"
    by simp
  have 4: "is_operator CHR ''*''" "\<forall>c \<in> set ''C1''. is_word c" "\<forall>c \<in> set ''C3''. is_word c"
    by (simp_all add: is_operator_def is_word_def)
  have 5: "acquisition_sample_size bench 0 (Str ''C1'') ?s1 = (Inr (Num 7000000), ?s2)"
    by code_simp
  have 6: "acquisition_sample_size bench 0 (Str ''C3'') ?s2 = (Inr (Num 3500000), ?s3)"
    by code_simp
  have 7: "waveform_source ?s = Str ''MATH''"
    by (simp add: session_def)
  have 8: "\<not> isl (fst ?X)"
    by code_simp
  then have 9: "?X = (Inr (projr (fst ?X)), snd ?X)"
    by (metis sum.collapse(2) prod.collapse)
  have 10: "projr (fst ?X) ''sampled_points'' = Some (Some (Num 3500000))"
    by code_simp
  from math_sample_size_is_min [OF 1, where s = ?s and md = ?md and ?s1.0 = ?s1
      and a = "''C1''" and op = "CHR ''*''" and b = "''C3''" and rest = "[]" and depth = 0
      and x = 7000000 and ?s2.0 = ?s2 and y = 3500000 and ?s3.0 = ?s3
      and t = ?s and n = 1 and p = "projr (fst ?X)" and t' = "snd ?X"]
  have A: "acquisition_sample_size bench 1 (Str ''MATH'') ?s = (Inr (Num 3500000), ?s3)"
    and B: "\<exists>v w m. py_min v w = Inr m \<and> projr (fst ?X) ''sampled_points'' = Some (Some m)"
    using 2 3 4 5 6 7 9 by (simp, blast)
  show ?thesis
    using 1 2 4 5 6 7 8 10 A B by (simp add: list_all_iff)
qed

section \<open>The waveform preamble\<close>

subsection \<open>The fields read first\<close>

lemma index_of_Some_iff:
  "index_of x xs = Some i \<longleftrightarrow> i < length xs \<and> xs ! i = x \<and> (\<forall>j < i. xs ! j \<noteq> x)"
proof (induction xs arbitrary: i)
  case Nil
  show ?case by simp
next
  case (Cons y ys)
  show ?case
  proof (cases "y = x")
    case True
    then show ?thesis by (cases i) auto
  next
    case False
    show ?thesis
    proof (cases i)
      case 0
      with False show ?thesis by (auto split: option.splits)
    next
      case (Suc k)
      have "(\<forall>j < Suc k. (y # ys) ! j \<noteq> x) \<longleftrightarrow> (\<forall>j < k. ys ! j \<noteq> x)"
        using False by (auto simp: less_Suc_eq_0_disj)
      with False Suc Cons.IH [of k] show ?thesis
        by (auto split: option.splits)
    qed
  qed
qed

lemma item_after_Inr:
  "item_after vals marker = Inr v \<longleftrightarrow> follows_first vals marker v"
proof
  assume "item_after vals marker = Inr v"
  then obtain i where i: "index_of marker vals = Some i" and "Suc i < length vals"
    and "v = vals ! Suc i"
    by (auto simp: item_after_def split: option.splits if_splits)
  with i [unfolded index_of_Some_iff] show "follows_first vals marker v"
    unfolding follows_first_def by blast
next
  assume "follows_first vals marker v"
  then obtain i where "i < length vals \<and> vals ! i = marker \<and> (\<forall>j < i. vals ! j \<noteq> marker)"
    and 2: "Suc i < length vals" "vals ! Suc i = v"
    unfolding follows_first_def by blast
  then have "index_of marker vals = Some i"
    using index_of_Some_iff [of marker vals i] by blast
  with 2 show "item_after vals marker = Inr v"
    by (simp add: item_after_def)
qed

lemma follows_first_unique:
  assumes "follows_first vals marker v" and "follows_first vals marker w"
  shows "v = w"
  using assms unfolding item_after_Inr [symmetric] by simp

lemma index_of_append:
  "x \<notin> set pre \<Longrightarrow>
     index_of x (pre @ ys) = map_option (\<lambda>i. length pre + i) (index_of x ys)"
proof (induction pre)
  case Nil
  show ?case by (cases "index_of x ys") simp_all
next
  case (Cons y pre)
  then show ?case by (cases "index_of x ys") auto
qed

lemma read_preamble_returns:
  assumes "read_preamble env s = (Inr p0, s0)"
  shows "\<exists>vals s1 sp np fp ty s2.
           ask_values env ''WFSU?'' s = (Inr vals, s1) \<and>
           item_after vals (Str ''SP'') = Inr sp \<and> item_after vals (Str ''NP'') = Inr np \<and>
           item_after vals (Str ''FP'') = Inr fp \<and>
           property_get env acquisition_type s1 = (Inr ty, s2) \<and>
           p0 ''sparsing'' = Some (Some sp) \<and> p0 ''requested_points'' = Some (Some np) \<and>
           p0 ''first_point'' = Some (Some fp) \<and> p0 ''type'' = Some (Some ty) \<and>
           p0 ''transmitted_points'' = Some None"
  using assms unfolding read_preamble_def
  by (auto simp: and_then_Inr lift_apply attr_apply ret_apply)


lemma item_after_reply:
  assumes "vals = pre @ [Str ''SP'', a, Str ''NP'', b, Str ''FP'', c] @ post"
    and "Str ''SP'' \<notin> set pre" and "Str ''NP'' \<notin> set pre" and "Str ''FP'' \<notin> set pre"
    and "a \<noteq> Str ''NP''" and "a \<noteq> Str ''FP''" and "b \<noteq> Str ''FP''"
  shows "item_after vals (Str ''SP'') = Inr a" and "item_after vals (Str ''NP'') = Inr b"
    and "item_after vals (Str ''FP'') = Inr c"
  using assms by (simp_all add: item_after_def index_of_append nth_append)

lemma preamble_keeps_first_fields:
  assumes "waveform_preamble env depth s = (Inr p, s')"
  shows "\<exists>p0 s0. read_preamble env s = (Inr p0, s0) \<and>
           p ''sparsing'' = p0 ''sparsing'' \<and> p ''requested_points'' = p0 ''requested_points'' \<and>
           p ''first_point'' = p0 ''first_point'' \<and> p ''type'' = p0 ''type'' \<and>
           p ''transmitted_points'' = p0 ''transmitted_points''"
proof -
  from waveform_preamble_returns [OF assms] obtain p0 s0 avg n s3 where
    1: "read_preamble env s = (Inr p0, s0)"
    and 2: "fill_yaxis_preamble env
             (Some (p0(''average'' \<mapsto> avg, ''sampled_points'' \<mapsto> Some n))) s3 = (Inr p, s')"
    by blast
  have "p ''sparsing'' = p0 ''sparsing''"
    using fill_yaxis_other [OF 2, of "''sparsing''"] by simp
  moreover have "p ''requested_points'' = p0 ''requested_points''"
    using fill_yaxis_other [OF 2, of "''requested_points''"] by simp
  moreover have "p ''first_point'' = p0 ''first_point''"
    using fill_yaxis_other [OF 2, of "''first_point''"] by simp
  moreover have "p ''type'' = p0 ''type''"
    using fill_yaxis_other [OF 2, of "''type''"] by simp
  moreover have "p ''transmitted_points'' = p0 ''transmitted_points''"
    using fill_yaxis_other [OF 2, of "''transmitted_points''"] by simp
  ultimately show ?thesis using 1 by blast
qed

text \<open>
  Claim C4. In every preamble that \<^verbatim>\<open>waveform_preamble\<close> returns, \<^verbatim>\<open>sparsing\<close>,
  \<^verbatim>\<open>requested_points\<close> and \<^verbatim>\<open>first_point\<close> are the elements of the reply to \<^verbatim>\<open>WFSU?\<close>
  right after the first occurrence of \<^verbatim>\<open>SP\<close>, of \<^verbatim>\<open>NP\<close> and of \<^verbatim>\<open>FP\<close>. In particular, when
  the reply is some tokens without a marker, then \<^verbatim>\<open>SP, 1.0, NP, 0.0, FP, 0.0\<close>, then any
  tokens, the three fields are 1.0, 0.0 and 0.0.
\<close>

theorem point_fields_follow_markers:
  assumes "waveform_preamble env depth s = (Inr p, s')"
  shows "\<exists>vals s1 sp np fp.
           ask_values env ''WFSU?'' s = (Inr vals, s1) \<and>
           follows_first vals (Str ''SP'') sp \<and> p ''sparsing'' = Some (Some sp) \<and>
           follows_first vals (Str ''NP'') np \<and> p ''requested_points'' = Some (Some np) \<and>
           follows_first vals (Str ''FP'') fp \<and> p ''first_point'' = Some (Some fp) \<and>
           (\<forall>pre post.
              vals = pre @ [Str ''SP'', Num 1, Str ''NP'', Num 0, Str ''FP'', Num 0] @ post \<and>
              Str ''SP'' \<notin> set pre \<and> Str ''NP'' \<notin> set pre \<and> Str ''FP'' \<notin> set pre \<longrightarrow>
              p ''sparsing'' = Some (Some (Num 1)) \<and>
              p ''requested_points'' = Some (Some (Num 0)) \<and>
              p ''first_point'' = Some (Some (Num 0)))"
proof -
  from preamble_keeps_first_fields [OF assms] obtain p0 s0 where
    p0: "read_preamble env s = (Inr p0, s0)"
    and eq: "p ''sparsing'' = p0 ''sparsing''" "p ''requested_points'' = p0 ''requested_points''"
      "p ''first_point'' = p0 ''first_point''"
    by blast
  from read_preamble_returns [OF p0] obtain vals s1 sp np fp where
    vals: "ask_values env ''WFSU?'' s = (Inr vals, s1)"
    and items: "item_after vals (Str ''SP'') = Inr sp" "item_after vals (Str ''NP'') = Inr np"
      "item_after vals (Str ''FP'') = Inr fp"
    and fields: "p0 ''sparsing'' = Some (Some sp)" "p0 ''requested_points'' = Some (Some np)"
      "p0 ''first_point'' = Some (Some fp)"
    by (elim exE conjE) (rule that)
  have example: "\<forall>pre post.
      vals = pre @ [Str ''SP'', Num 1, Str ''NP'', Num 0, Str ''FP'', Num 0] @ post \<and>
      Str ''SP'' \<notin> set pre \<and> Str ''NP'' \<notin> set pre \<and> Str ''FP'' \<notin> set pre \<longrightarrow>
      p ''sparsing'' = Some (Some (Num 1)) \<and>
      p ''requested_points'' = Some (Some (Num 0)) \<and>
      p ''first_point'' = Some (Some (Num 0))"
  proof (intro allI impI)
    fix pre post
    assume "vals = pre @ [Str ''SP'', Num 1, Str ''NP'', Num 0, Str ''FP'', Num 0] @ post \<and>
      Str ''SP'' \<notin> set pre \<and> Str ''NP'' \<notin> set pre \<and> Str ''FP'' \<notin> set pre"
    then show "p ''sparsing'' = Some (Some (Num 1)) \<and>
      p ''requested_points'' = Some (Some (Num 0)) \<and>
      p ''first_point'' = Some (Some (Num 0))"
      using item_after_reply [of vals pre "Num 1" "Num 0" "Num 0" post] items eq fields
      by simp
  qed
  show ?thesis
  proof (intro exI conjI)
    show "ask_values env ''WFSU?'' s = (Inr vals, s1)" by fact
    show "follows_first vals (Str ''SP'') sp" using items(1) by (simp add: item_after_Inr)
    show "p ''sparsing'' = Some (Some sp)" using eq(1) fields(1) by simp
    show "follows_first vals (Str ''NP'') np" using items(2) by (simp add: item_after_Inr)
    show "p ''requested_points'' = Some (Some np)" using eq(2) fields(2) by simp
    show "follows_first vals (Str ''FP'') fp" using items(3) by (simp add: item_after_Inr)
    show "p ''first_point'' = Some (Some fp)" using eq(3) fields(3) by simp
    show "\<forall>pre post.
      vals = pre @ [Str ''SP'', Num 1, Str ''NP'', Num 0, Str ''FP'', Num 0] @ post \<and>
      Str ''SP'' \<notin> set pre \<and> Str ''NP'' \<notin> set pre \<and> Str ''FP'' \<notin> set pre \<longrightarrow>
      p ''sparsing'' = Some (Some (Num 1)) \<and>
      p ''requested_points'' = Some (Some (Num 0)) \<and>
      p ''first_point'' = Some (Some (Num 0))" by (rule example)
  qed
qed

theorem point_fields_follow_markers_witness:
  "\<not> isl (fst (waveform_preamble bench 1 (session (Str ''C2'')))) \<and>
   ask_values bench ''WFSU?'' (session (Str ''C2'')) =
     (Inr ([] @ [Str ''SP'', Num 1, Str ''NP'', Num 0, Str ''FP'', Num 0] @ []),
      (session (Str ''C2''))\<lparr>sent := [Query ''WFSU?'']\<rparr>) \<and>
   projr (fst (waveform_preamble bench 1 (session (Str ''C2'')))) ''sparsing'' =
     Some (Some (Num 1)) \<and>
   projr (fst (waveform_preamble bench 1 (session (Str ''C2'')))) ''requested_points'' =
     Some (Some (Num 0)) \<and>
   projr (fst (waveform_preamble bench 1 (session (Str ''C2'')))) ''first_point'' =
     Some (Some (Num 0))"
proof -
  let ?s = "session (Str ''C2'')"
  let ?X = "waveform_preamble bench 1 ?s"
  have 1: "\<not> isl (fst ?X)"
    by code_simp
  then have 2: "?X = (Inr (projr (fst ?X)), snd ?X)"
    by (metis sum.collapse(2) prod.collapse)
  have 3: "ask_values bench ''WFSU?'' ?s =
     (Inr ([] @ [Str ''SP'', Num 1, Str ''NP'', Num 0, Str ''FP'', Num 0] @ []),
      ?s\<lparr>sent := [Query ''WFSU?'']\<rparr>)"
    by code_simp
  from point_fields_follow_markers [OF 2] 3
  have "projr (fst ?X) ''sparsing'' = Some (Some (Num 1)) \<and>
        projr (fst ?X) ''requested_points'' = Some (Some (Num 0)) \<and>
        projr (fst ?X) ''first_point'' = Some (Some (Num 0))"
    by (metis Pair_inject sum.inject(2) empty_iff list.set(1))
  with 1 3 show ?thesis by simp
qed

subsection \<open>The number of averages\<close>

lemma read_average_returns:
  assumes "read_average env p0 s0 = (Inr avg, sa)"
  shows "\<exists>ty tag. p0 ''type'' = Some ty \<and> first_item ty = Inr tag \<and>
           (if tag = Str ''average''
            then \<exists>a. property_get env acquisition_average s0 = (Inr a, sa) \<and> avg = Some a
            else avg = None \<and> sa = s0)"
  using assms unfolding read_average_def lookup_def
  by (auto simp: and_then_Inr lift_apply ret_apply split: option.splits if_splits)

text \<open>
  How the code decides: in every preamble that \<^verbatim>\<open>waveform_preamble\<close> returns, with \<open>tag\<close>
  the first item of its \<^verbatim>\<open>type\<close> field, the field \<^verbatim>\<open>average\<close> holds the value read from
  \<^verbatim>\<open>acquisition_average\<close> when \<open>tag\<close> is \<^verbatim>\<open>"average"\<close>, and \<^verbatim>\<open>None\<close> otherwise. The first item
  of a list is its first element; the first item of a string is its first character.
\<close>

lemma average_follows_first_item:
  assumes "waveform_preamble env depth s = (Inr p, s')"
  shows "\<exists>ty tag p0 s0.
           read_preamble env s = (Inr p0, s0) \<and>
           p ''type'' = Some (Some ty) \<and> py_getitem ty 0 = Inr tag \<and>
           (tag = Str ''average'' \<longrightarrow>
              (\<exists>a s1. property_get env acquisition_average s0 = (Inr a, s1) \<and>
                 p ''average'' = Some (Some a))) \<and>
           (tag \<noteq> Str ''average'' \<longrightarrow> p ''average'' = Some None) \<and>
           (tag = Str ''average'' \<longleftrightarrow> p ''average'' \<noteq> Some None)"
proof -
  from waveform_preamble_returns [OF assms] obtain p0 s0 avg sa n s3 where
    1: "read_preamble env s = (Inr p0, s0)" and 2: "read_average env p0 s0 = (Inr avg, sa)"
    and 3: "fill_yaxis_preamble env
             (Some (p0(''average'' \<mapsto> avg, ''sampled_points'' \<mapsto> Some n))) s3 = (Inr p, s')"
    by blast
  have avg: "p ''average'' = Some avg"
    using fill_yaxis_other [OF 3, of "''average''"] by simp
  have ty: "p ''type'' = p0 ''type''"
    using fill_yaxis_other [OF 3, of "''type''"] by simp
  from read_preamble_returns [OF 1] obtain ty0 where ty0: "p0 ''type'' = Some (Some ty0)"
    by (elim exE conjE)
  from read_average_returns [OF 2] ty0 obtain tag where
    tag: "py_getitem ty0 0 = Inr tag"
    and cases: "if tag = Str ''average''
            then \<exists>a. property_get env acquisition_average s0 = (Inr a, sa) \<and> avg = Some a
            else avg = None \<and> sa = s0"
    by (auto simp: first_item_def)
  show ?thesis
  proof (intro exI conjI)
    show "read_preamble env s = (Inr p0, s0)" by fact
    show "p ''type'' = Some (Some ty0)" using ty ty0 by simp
    show "py_getitem ty0 0 = Inr tag" by fact
    show "tag = Str ''average'' \<longrightarrow>
              (\<exists>a s1. property_get env acquisition_average s0 = (Inr a, s1) \<and>
                 p ''average'' = Some (Some a))"
      using cases avg by auto
    show "tag \<noteq> Str ''average'' \<longrightarrow> p ''average'' = Some None"
      using cases avg by auto
    show "tag = Str ''average'' \<longleftrightarrow> p ''average'' \<noteq> Some None"
      using cases avg by (cases "tag = Str ''average''") auto
  qed
qed

text \<open>
  Claim C5 asks that the field \<^verbatim>\<open>average\<close> of a returned preamble hold the reading of
  \<^verbatim>\<open>acquisition_average\<close> exactly when the acquisition type is \<^verbatim>\<open>average\<close>, and \<^verbatim>\<open>None\<close> in
  every other case. The code does so when the instrument answers \<^verbatim>\<open>ACQW?\<close> with
  \<^verbatim>\<open>AVERAGE,16\<close> (the type is the list \<^verbatim>\<open>["average", 16]\<close>, the field is 16) and with
  \<^verbatim>\<open>SAMPLING\<close> (the type is \<^verbatim>\<open>"normal"\<close>, the field is \<^verbatim>\<open>None\<close>). It does not when the answer
  is the one token \<^verbatim>\<open>AVERAGE\<close>: the type is the string \<^verbatim>\<open>"average"\<close>, but
  \<^verbatim>\<open>preamble["type"][0]\<close> is its first character \<^verbatim>\<open>"a"\<close>, so the preamble is returned with the
  field \<^verbatim>\<open>average\<close> set to \<^verbatim>\<open>None\<close> and \<^verbatim>\<open>AVGA?\<close> is never queried.
\<close>

theorem average_of_plain_average_type:
  "\<not> isl (fst (waveform_preamble bench 1 (session (Str ''C2'')))) \<and>
   projr (fst (waveform_preamble bench 1 (session (Str ''C2'')))) ''type'' =
     Some (Some (List [Str ''average'', Num 16])) \<and>
   projr (fst (waveform_preamble bench 1 (session (Str ''C2'')))) ''average'' =
     Some (Some (Num 16)) \<and>
   \<not> isl (fst (waveform_preamble sampling_bench 1 (session (Str ''C2'')))) \<and>
   projr (fst (waveform_preamble sampling_bench 1 (session (Str ''C2'')))) ''type'' =
     Some (Some (Str ''normal'')) \<and>
   projr (fst (waveform_preamble sampling_bench 1 (session (Str ''C2'')))) ''average'' =
     Some None \<and>
   \<not> isl (fst (waveform_preamble plain_average_bench 1 (session (Str ''C2'')))) \<and>
   projr (fst (waveform_preamble plain_average_bench 1 (session (Str ''C2'')))) ''type'' =
     Some (Some (Str ''average'')) \<and>
   projr (fst (waveform_preamble plain_average_bench 1 (session (Str ''C2'')))) ''average'' =
     Some None \<and>
   sent (snd (waveform_preamble plain_average_bench 1 (session (Str ''C2'')))) =
     [Query ''WFSU?'', Query ''ACQW?'', Query ''SARA?'', Query ''SAST?'', Query ''MSIZ?'',
      Query ''TDIV?'', Query ''TRDL?'', Query ''SANU? C1'', Query ''C2:VDIV?'',
      Query ''C2:OFST?'', Query ''C2:UNIT?'']"
proof -
  let ?s = "session (Str ''C2'')"
  let ?X = "waveform_preamble bench 1 ?s"
  let ?Y = "waveform_preamble sampling_bench 1 ?s"
  let ?Z = "waveform_preamble plain_average_bench 1 ?s"
  have 1: "\<not> isl (fst ?X)" "\<not> isl (fst ?Y)" "\<not> isl (fst ?Z)"
    by code_simp+
  have 2: "projr (fst ?X) ''type'' = Some (Some (List [Str ''average'', Num 16]))"
    "projr (fst ?X) ''average'' = Some (Some (Num 16))"
    "projr (fst ?Y) ''type'' = Some (Some (Str ''normal''))"
    "projr (fst ?Y) ''average'' = Some None"
    by code_simp+
  have 3: "projr (fst ?Z) ''type'' = Some (Some (Str ''average''))"
    "projr (fst ?Z) ''average'' = Some None"
    by code_simp+
  have 4: "sent (snd ?Z) =
     [Query ''WFSU?'', Query ''ACQW?'', Query ''SARA?'', Query ''SAST?'', Query ''MSIZ?'',
      Query ''TDIV?'', Query ''TRDL?'', Query ''SANU? C1'', Query ''C2:VDIV?'',
      Query ''C2:OFST?'', Query ''C2:UNIT?'']"
    by code_simp
  show ?thesis
    using 1 2 3 4 by simp
qed

subsection \<open>The vertical axis\<close>

lemma ch_property_returns:
  assumes "ch_property env d s = (Inr v, s')"
  shows "\<exists>n. ch env (waveform_source s) = Inr n \<and>
           property_get env (of_channel env n d) s = (Inr v, s')"
  using assms unfolding ch_property_def
  by (auto simp: and_then_Inr lift_apply attr_apply)

lemma fill_yaxis_math:
  assumes "fill_yaxis_preamble env pre s = (Inr p, s')" and "waveform_source s = Str ''MATH''"
  shows "\<exists>ydiv s1 yoffset.
           property_get env (math_vdiv env) s = (Inr ydiv, s1) \<and>
           property_get env (math_vpos env) s1 = (Inr yoffset, s') \<and>
           p ''ydiv'' = Some (Some ydiv) \<and> p ''yoffset'' = Some (Some yoffset) \<and>
           p ''unit'' = Some None"
  using assms unfolding fill_yaxis_preamble_def
  by (auto simp: and_then_Inr and_then_attr ret_apply Let_def)

lemma fill_yaxis_channel:
  assumes "fill_yaxis_preamble env pre s = (Inr p, s')" and "waveform_source s \<noteq> Str ''MATH''"
  shows "\<exists>n ydiv s1 yoffset s2 u.
           ch env (waveform_source s) = Inr n \<and>
           property_get env (of_channel env n (channel_scale env)) s = (Inr ydiv, s1) \<and>
           property_get env (of_channel env n (channel_offset env)) s1 = (Inr yoffset, s2) \<and>
           property_get env (of_channel env n channel_unit) s2 = (Inr u, s') \<and>
           p ''ydiv'' = Some (Some ydiv) \<and> p ''yoffset'' = Some (Some yoffset) \<and>
           p ''unit'' = Some (Some u)"
proof -
  from assms obtain ydiv s1 yoffset s2 u where
    1: "ch_property env (channel_scale env) s = (Inr ydiv, s1)"
    and 2: "ch_property env (channel_offset env) s1 = (Inr yoffset, s2)"
    and 3: "ch_property env channel_unit s2 = (Inr u, s')"
    and p: "p ''ydiv'' = Some (Some ydiv)" "p ''yoffset'' = Some (Some yoffset)"
      "p ''unit'' = Some (Some u)"
    unfolding fill_yaxis_preamble_def
    by (auto simp: and_then_Inr and_then_attr ret_apply Let_def)
  have k1: "waveform_source s1 = waveform_source s"
    using ch_property_returns [OF 1] keepsD [OF keeps_property_get] by blast
  have k2: "waveform_source s2 = waveform_source s1"
    using ch_property_returns [OF 2] keepsD [OF keeps_property_get] by blast
  from ch_property_returns [OF 1] obtain n where
    n: "ch env (waveform_source s) = Inr n"
    and a: "property_get env (of_channel env n (channel_scale env)) s = (Inr ydiv, s1)"
    by blast
  from ch_property_returns [OF 2] n k1
  have b: "property_get env (of_channel env n (channel_offset env)) s1 = (Inr yoffset, s2)"
    by auto
  from ch_property_returns [OF 3] n k1 k2
  have c: "property_get env (of_channel env n channel_unit) s2 = (Inr u, s')"
    by auto
  from n a b c p show ?thesis by blast
qed

text \<open>
  Claim C6. Every preamble that \<^verbatim>\<open>waveform_preamble\<close> returns was completed by
  \<^verbatim>\<open>_fill_yaxis_preamble\<close> in a state with the same waveform source. When the source is
  \<^verbatim>\<open>MATH\<close>, \<^verbatim>\<open>ydiv\<close> and \<^verbatim>\<open>yoffset\<close> are the values read, in this order, from the properties
  \<^verbatim>\<open>math_vdiv\<close> and \<^verbatim>\<open>math_vpos\<close>, and \<^verbatim>\<open>unit\<close> is \<^verbatim>\<open>None\<close>. Otherwise \<^verbatim>\<open>ydiv\<close>, \<^verbatim>\<open>yoffset\<close> and
  \<^verbatim>\<open>unit\<close> are the values read, in this order, from the properties \<^verbatim>\<open>scale\<close>, \<^verbatim>\<open>offset\<close> and
  \<^verbatim>\<open>unit\<close> of the channel that \<^verbatim>\<open>self.ch\<close> gives for the source.
\<close>

theorem yaxis_fields:
  assumes "waveform_preamble env depth s = (Inr p, s')"
  shows "\<exists>pre t.
           fill_yaxis_preamble env (Some pre) t = (Inr p, s') \<and>
           waveform_source t = waveform_source s \<and>
           (waveform_source s = Str ''MATH'' \<longrightarrow>
              (\<exists>ydiv t1 yoffset.
                 property_get env (math_vdiv env) t = (Inr ydiv, t1) \<and>
                 property_get env (math_vpos env) t1 = (Inr yoffset, s') \<and>
                 p ''ydiv'' = Some (Some ydiv) \<and> p ''yoffset'' = Some (Some yoffset) \<and>
                 p ''unit'' = Some None)) \<and>
           (waveform_source s \<noteq> Str ''MATH'' \<longrightarrow>
              (\<exists>n ydiv t1 yoffset t2 u.
                 ch env (waveform_source s) = Inr n \<and>
                 property_get env (of_channel env n (channel_scale env)) t = (Inr ydiv, t1) \<and>
                 property_get env (of_channel env n (channel_offset env)) t1 = (Inr yoffset, t2) \<and>
                 property_get env (of_channel env n channel_unit) t2 = (Inr u, s') \<and>
                 p ''ydiv'' = Some (Some ydiv) \<and> p ''yoffset'' = Some (Some yoffset) \<and>
                 p ''unit'' = Some (Some u)))"
proof -
  from waveform_preamble_returns [OF assms] obtain pre t where
    fill: "fill_yaxis_preamble env (Some pre) t = (Inr p, s')"
    and src: "waveform_source t = waveform_source s"
    by blast
  show ?thesis
  proof (rule exI [of _ pre], rule exI [of _ t], intro conjI impI)
    show "fill_yaxis_preamble env (Some pre) t = (Inr p, s')" by fact
    show "waveform_source t = waveform_source s" by fact
    show "\<exists>ydiv t1 yoffset.
                 property_get env (math_vdiv env) t = (Inr ydiv, t1) \<and>
                 property_get env (math_vpos env) t1 = (Inr yoffset, s') \<and>
                 p ''ydiv'' = Some (Some ydiv) \<and> p ''yoffset'' = Some (Some yoffset) \<and>
                 p ''unit'' = Some None"
      if "waveform_source s = Str ''MATH''"
      using fill_yaxis_math [OF fill] src that by simp
    show "\<exists>n ydiv t1 yoffset t2 u.
                 ch env (waveform_source s) = Inr n \<and>
                 property_get env (of_channel env n (channel_scale env)) t = (Inr ydiv, t1) \<and>
                 property_get env (of_channel env n (channel_offset env)) t1 = (Inr yoffset, t2) \<and>
                 property_get env (of_channel env n channel_unit) t2 = (Inr u, s') \<and>
                 p ''ydiv'' = Some (Some ydiv) \<and> p ''yoffset'' = Some (Some yoffset) \<and>
                 p ''unit'' = Some (Some u)"
      if "waveform_source s \<noteq> Str ''MATH''"
      using fill_yaxis_channel [OF fill] src that by simp
  qed
qed


theorem yaxis_fields_witness:
  "\<not> isl (fst (waveform_preamble bench 1 (session (Str ''MATH'')))) \<and>
   projr (fst (waveform_preamble bench 1 (session (Str ''MATH'')))) ''ydiv'' =
     Some (Some (Num (1 / 2))) \<and>
   projr (fst (waveform_preamble bench 1 (session (Str ''MATH'')))) ''yoffset'' =
     Some (Some (Num 0)) \<and>
   projr (fst (waveform_preamble bench 1 (session (Str ''MATH'')))) ''unit'' = Some None \<and>
   \<not> isl (fst (waveform_preamble bench 1 (session (Str ''C2'')))) \<and>
   ch bench (Str ''C2'') = Inr 2 \<and>
   projr (fst (waveform_preamble bench 1 (session (Str ''C2'')))) ''ydiv'' =
     Some (Some (Num (1 / 5))) \<and>
   projr (fst (waveform_preamble bench 1 (session (Str ''C2'')))) ''yoffset'' =
     Some (Some (Num (- 1))) \<and>
   projr (fst (waveform_preamble bench 1 (session (Str ''C2'')))) ''unit'' =
     Some (Some (Str ''V'')) \<and>
   projr (fst (waveform_preamble bench 1 (session (Str ''C2'')))) ''unit'' \<noteq> Some None"
proof -
  let ?X = "waveform_preamble bench 1 (session (Str ''MATH''))"
  let ?Y = "waveform_preamble bench 1 (session (Str ''C2''))"
  have 1: "\<not> isl (fst ?X)" "\<not> isl (fst ?Y)"
    by code_simp+
  then have 2: "?X = (Inr (projr (fst ?X)), snd ?X)" "?Y = (Inr (projr (fst ?Y)), snd ?Y)"
    by (metis sum.collapse(2) prod.collapse)+
  have 3: "waveform_source (session (Str ''MATH'')) = Str ''MATH''"
    "waveform_source (session (Str ''C2'')) \<noteq> Str ''MATH''"
    by (simp_all add: session_def)
  have 4: "projr (fst ?X) ''ydiv'' = Some (Some (Num (1 / 2)))"
    "projr (fst ?X) ''yoffset'' = Some (Some (Num 0))"
    "projr (fst ?Y) ''ydiv'' = Some (Some (Num (1 / 5)))"
    "projr (fst ?Y) ''yoffset'' = Some (Some (Num (- 1)))"
    "projr (fst ?Y) ''unit'' = Some (Some (Str ''V''))"
    "ch bench (Str ''C2'') = Inr 2"
    by code_simp+
  from yaxis_fields [OF 2(1)] 3(1)
  have 5: "projr (fst ?X) ''unit'' = Some None"
    by auto
  from yaxis_fields [OF 2(2)] 3(2)
  have 6: "projr (fst ?Y) ''unit'' \<noteq> Some None"
    by auto
  show ?thesis
    using 1 4 5 6 by simp
qed

subsection \<open>The check of the source\<close>

text \<open>
  Claim C2, as stated, fails: it promises the invalid-argument error in every state whose
  source is not one of the five tokens, but the check comes after the first reads, and a
  read that fails raises its own error. Here the source is \<^verbatim>\<open>C5\<close> and the reply to \<^verbatim>\<open>WFSU?\<close>
  ends at \<^verbatim>\<open>SP\<close>: the assembly raises \<^verbatim>\<open>IndexError\<close>.
\<close>

theorem source_check_counterexample:
  "waveform_source (session (Str ''C5'')) \<notin> set (members waveform_sources) \<and>
   fst (waveform_preamble cut_bench 1 (session (Str ''C5''))) = Inl IndexError"
proof -
  let ?X = "waveform_preamble cut_bench 1 (session (Str ''C5''))"
  have "isl (fst ?X)" and "projl (fst ?X) = IndexError"
    by code_simp+
  then have "fst ?X = Inl IndexError"
    by (metis sum.collapse(1))
  then show ?thesis
    by (simp add: session_def waveform_sources_def)
qed

text \<open>
  Claim C2, amended. \<^verbatim>\<open>waveform_preamble\<close> checks the source before it resolves
  \<^verbatim>\<open>sampled_points\<close>. In every state whose waveform source is none of \<^verbatim>\<open>C1\<close>, \<^verbatim>\<open>C2\<close>, \<^verbatim>\<open>C3\<close>,
  \<^verbatim>\<open>C4\<close>, \<^verbatim>\<open>MATH\<close> the assembly raises and returns no preamble, not even a partial one. When
  the reads that come before the check succeed, the error is the invalid-argument error of
  the check, and the session is as those reads left it: no sample size has been queried.
\<close>

theorem unknown_source_gives_no_preamble:
  assumes "waveform_source s \<notin> set (members waveform_sources)"
  shows "(\<exists>e. fst (waveform_preamble env depth s) = Inl e) \<and>
         (read_preamble env s = (Inr p0, s0) \<and> read_average env p0 s0 = (Inr avg, sa) \<longrightarrow>
            waveform_preamble env depth s =
              (Inl (ValueError ''Value is not in the discrete set''), sa))"
proof (intro conjI impI)
  show "\<exists>e. fst (waveform_preamble env depth s) = Inl e"
  proof (cases "fst (waveform_preamble env depth s)")
    case (Inl e)
    then show ?thesis by blast
  next
    case (Inr p)
    then have "waveform_preamble env depth s = (Inr p, snd (waveform_preamble env depth s))"
      by (metis prod.collapse)
    from waveform_preamble_returns [OF this] assms show ?thesis by blast
  qed
next
  assume h: "read_preamble env s = (Inr p0, s0) \<and> read_average env p0 s0 = (Inr avg, sa)"
  then have "waveform_source sa = waveform_source s"
    using keepsD [OF keeps_read_preamble, of env s "Inr p0" s0]
      keepsD [OF keeps_read_average, of env p0 s0 "Inr avg" sa] by simp
  with assms h show "waveform_preamble env depth s =
              (Inl (ValueError ''Value is not in the discrete set''), sa)"
    unfolding waveform_preamble_def
    by (simp add: and_then_ok and_then_attr and_then_lift strict_discrete_set_def)
qed

theorem unknown_source_gives_no_preamble_witness:
  "waveform_source (session (Str ''C5'')) \<notin> set (members waveform_sources) \<and>
   \<not> isl (fst (read_preamble bench (session (Str ''C5'')))) \<and>
   fst (waveform_preamble bench 1 (session (Str ''C5''))) =
     Inl (ValueError ''Value is not in the discrete set'') \<and>
   sent (snd (waveform_preamble bench 1 (session (Str ''C5'')))) =
     [Query ''WFSU?'', Query ''ACQW?'', Query ''SARA?'', Query ''SAST?'', Query ''MSIZ?'',
      Query ''TDIV?'', Query ''TRDL?'', Query ''AVGA?'']"
proof -
  let ?s = "session (Str ''C5'')"
  let ?R = "read_preamble bench ?s"
  let ?A = "read_average bench (projr (fst ?R)) (snd ?R)"
  have 1: "waveform_source ?s \<notin> set (members waveform_sources)"
    by (simp add: session_def waveform_sources_def)
  have 2: "\<not> isl (fst ?R)" "\<not> isl (fst ?A)"
    by code_simp+
  then have 3: "?R = (Inr (projr (fst ?R)), snd ?R)" "?A = (Inr (projr (fst ?A)), snd ?A)"
    by (metis sum.collapse(2) prod.collapse)+
  have 4: "sent (snd ?A) =
     [Query ''WFSU?'', Query ''ACQW?'', Query ''SARA?'', Query ''SAST?'', Query ''MSIZ?'',
      Query ''TDIV?'', Query ''TRDL?'', Query ''AVGA?'']"
    by code_simp
  from unknown_source_gives_no_preamble [OF 1, of bench 1 "projr (fst ?R)" "snd ?R"
      "projr (fst ?A)" "snd ?A"] 3
  have "waveform_preamble bench 1 ?s =
          (Inl (ValueError ''Value is not in the discrete set''), snd ?A)"
    by blast
  with 1 2 4 show ?thesis by simp
qed

section \<open>Setting up the timebase\<close>

lemma transmits_ret: "transmits (ret ()) []"
  by (simp add: transmits_def ret_def)

lemma transmits_property_set: "transmits (property_set env d v) [set_command d]"
proof (cases "set_command d")
  case None
  then show ?thesis
    unfolding transmits_def property_set_def
    by (auto simp: and_then_def lift_def raise_def split: sum.splits)
next
  case (Some w)
  have "\<exists>ws rest. sent s' = sent s @ ws \<and> [Some w] = map write_template ws @ rest \<and>
           (r = Inr () \<longrightarrow> rest = [])"
    if "property_set env d v s = (r, s')" for s r s'
  proof (cases "validator d v (allowed_values d)")
    case (Inl e)
    with that have "s' = s" "r = Inl e"
      by (simp_all add: property_set_def and_then_lift)
    then show ?thesis by simp
  next
    case v': (Inr v')
    show ?thesis
    proof (cases "translate_value d v'")
      case (Inl e)
      with that v' have "s' = s" "r = Inl e"
        by (simp_all add: property_set_def and_then_lift)
      then show ?thesis by simp
    next
      case (Inr t)
      with that v' Some have "and_then (transmit env (Write w t)) (\<lambda>_. ret ()) s = (r, s')"
        by (simp add: property_set_def and_then_lift)
      then have "sent s' = sent s @ [Write w t]"
        by (auto simp: and_then_def transmit_def ret_def split: sum.splits)
      then show ?thesis
        by (intro exI [of _ "[Write w t]"] exI [of _ "[]"]) (simp add: write_template_def)
    qed
  qed
  with Some show ?thesis
    unfolding transmits_def by simp
qed

lemma transmits_set_if_given:
  "transmits (set_if_given env d arg) (requested [(d, arg)])"
  by (cases arg) (simp_all add: set_if_given_def requested_def transmits_property_set
      transmits_ret [unfolded ret_def] ret_def [abs_def])

lemma requested_Cons: "requested (x # xs) = requested [x] @ requested xs"
  by (simp add: requested_def)

lemma transmits_and_then:
  assumes "transmits m A" and "transmits k B"
  shows "transmits (and_then m (\<lambda>_. k)) (A @ B)"
  unfolding transmits_def
proof (intro allI impI)
  fix s r s'
  assume run: "and_then m (\<lambda>_. k) s = (r, s')"
  obtain r1 s1 where m: "m s = (r1, s1)"
    by (cases "m s")
  from assms(1) m obtain ws1 rest1 where
    1: "sent s1 = sent s @ ws1" "A = map write_template ws1 @ rest1" "r1 = Inr () \<longrightarrow> rest1 = []"
    unfolding transmits_def by blast
  show "\<exists>ws rest. sent s' = sent s @ ws \<and> A @ B = map write_template ws @ rest \<and>
           (r = Inr () \<longrightarrow> rest = [])"
  proof (cases r1)
    case (Inl e)
    with run m have "r = Inl e" "s' = s1"
      by (simp_all add: and_then_def)
    with 1 show ?thesis
      by (intro exI [of _ ws1] exI [of _ "rest1 @ B"]) simp
  next
    case (Inr u)
    with run m have k: "k s1 = (r, s')"
      by (simp add: and_then_def)
    from assms(2) k obtain ws2 rest2 where
      2: "sent s' = sent s1 @ ws2" "B = map write_template ws2 @ rest2" "r = Inr () \<longrightarrow> rest2 = []"
      unfolding transmits_def by blast
    from Inr 1 have "rest1 = []" by simp
    with 1 2 show ?thesis
      by (intro exI [of _ "ws1 @ ws2"] exI [of _ rest2]) simp
  qed
qed

lemma keeps_timebase_setup: "keeps_attributes (timebase_setup env a b c d)"
  unfolding timebase_setup_def set_if_given_def
  by (auto intro!: keeps_and_then simp: keeps_basic keeps_property_set split: option.splits)

lemma transmits_timebase_setup:
  "transmits (timebase_setup env scale offset hor_magnify hor_position)
     (requested [(timebase_scale env, scale), (timebase_offset env, offset),
                 (timebase_hor_magnify, hor_magnify), (timebase_hor_position, hor_position)])"
  unfolding timebase_setup_def
  apply (subst requested_Cons)
  apply (rule transmits_and_then [OF transmits_set_if_given])
  apply (subst requested_Cons)
  apply (rule transmits_and_then [OF transmits_set_if_given])
  apply (subst requested_Cons)
  apply (rule transmits_and_then [OF transmits_set_if_given])
  apply (rule transmits_set_if_given)
  done


text \<open>
  Claim C10, as stated, fails: a property whose argument is not \<^verbatim>\<open>None\<close> is not always
  written. The horizontal magnification 1.0 is outside the range of the property, the
  validator rejects it before anything is transmitted, and the call raises, so that the
  horizontal position, given as well, is not written either.
\<close>

theorem timebase_setup_counterexample:
  "Some (Num 1) \<noteq> None \<and> Some (Num 0) \<noteq> None \<and>
   timebase_setup bench None None (Some (Num 1)) (Some (Num 0)) (session (Str ''C1'')) =
     (Inl (ValueError ''Value is not in the range''), session (Str ''C1'')) \<and>
   writes_of timebase_hor_magnify (sent (session (Str ''C1''))) = [] \<and>
   writes_of timebase_hor_position (sent (session (Str ''C1''))) = []"
  by (simp add: timebase_setup_def set_if_given_def property_set_def and_then_def ret_def
      lift_def timebase_hor_magnify_def control_def session_def writes_of_def)

text \<open>
  Claim C10, amended. For every call of \<^verbatim>\<open>timebase_setup\<close> the commands transmitted are
  writes of the properties whose argument is not \<^verbatim>\<open>None\<close>, one for each, in the order
  scale, offset, horizontal magnify, horizontal position: all of them when the call
  returns, and the first ones when a validator rejects a value or a write fails, where the
  call raises. A property whose argument is \<^verbatim>\<open>None\<close> is not among them. With four
  arguments \<^verbatim>\<open>None\<close> the call returns and the session is unchanged. The attributes of the
  session are never changed.
\<close>

theorem timebase_setup_writes:
  assumes "timebase_setup env scale offset hor_magnify hor_position s = (r, s')"
  shows "(\<exists>ws rest.
            sent s' = sent s @ ws \<and>
            requested [(timebase_scale env, scale), (timebase_offset env, offset),
                       (timebase_hor_magnify, hor_magnify),
                       (timebase_hor_position, hor_position)] =
              map write_template ws @ rest \<and>
            (r = Inr () \<longrightarrow> rest = [])) \<and>
         waveform_source s' = waveform_source s \<and> grid_number s' = grid_number s \<and>
         (scale = None \<and> offset = None \<and> hor_magnify = None \<and> hor_position = None \<longrightarrow>
            r = Inr () \<and> s' = s)"
proof (intro conjI impI)
  show "\<exists>ws rest.
            sent s' = sent s @ ws \<and>
            requested [(timebase_scale env, scale), (timebase_offset env, offset),
                       (timebase_hor_magnify, hor_magnify),
                       (timebase_hor_position, hor_position)] =
              map write_template ws @ rest \<and>
            (r = Inr () \<longrightarrow> rest = [])"
    using transmits_timebase_setup [of env scale offset hor_magnify hor_position] assms
    unfolding transmits_def by blast
  show "waveform_source s' = waveform_source s" "grid_number s' = grid_number s"
    using keepsD [OF keeps_timebase_setup assms] by simp_all
  assume "scale = None \<and> offset = None \<and> hor_magnify = None \<and> hor_position = None"
  with assms show "r = Inr ()" "s' = s"
    by (auto simp: timebase_setup_def set_if_given_def and_then_def ret_def)
qed

theorem timebase_setup_writes_witness:
  "timebase_setup bench (Some (Num 1)) None (Some (Num (1 / 1000))) (Some (Num 0))
       (session (Str ''C1'')) =
     (Inr (), (session (Str ''C1''))\<lparr>sent :=
        [Write ''TDIV %.2ES'' (Num 1), Write ''HMAG %.2ES'' (Num (1 / 1000)),
         Write ''HPOS %.2ES'' (Num 0)]\<rparr>) \<and>
   (\<exists>ws. [Write ''TDIV %.2ES'' (Num 1), Write ''HMAG %.2ES'' (Num (1 / 1000)),
          Write ''HPOS %.2ES'' (Num 0)] = [] @ ws \<and>
        requested [(timebase_scale bench, Some (Num 1)), (timebase_offset bench, None),
                   (timebase_hor_magnify, Some (Num (1 / 1000))),
                   (timebase_hor_position, Some (Num 0))] = map write_template ws) \<and>
   requested [(timebase_scale bench, Some (Num 1)), (timebase_offset bench, None),
              (timebase_hor_magnify, Some (Num (1 / 1000))),
              (timebase_hor_position, Some (Num 0))] =
     [Some ''TDIV %.2ES'', Some ''HMAG %.2ES'', Some ''HPOS %.2ES'']"
proof -
  let ?s = "session (Str ''C1'')"
  let ?s' = "?s\<lparr>sent :=
        [Write ''TDIV %.2ES'' (Num 1), Write ''HMAG %.2ES'' (Num (1 / 1000)),
         Write ''HPOS %.2ES'' (Num 0)]\<rparr>"
  have 1: "timebase_setup bench (Some (Num 1)) None (Some (Num (1 / 1000))) (Some (Num 0)) ?s =
     (Inr (), ?s')"
    by (simp add: timebase_setup_def set_if_given_def property_set_def and_then_def ret_def
        lift_def timebase_hor_magnify_def timebase_hor_position_def control_def session_def
        bench_def bench_device_def transmit_def translate_value_def accept_any_def)
  have 2: "requested [(timebase_scale bench, Some (Num 1)), (timebase_offset bench, None),
              (timebase_hor_magnify, Some (Num (1 / 1000))),
              (timebase_hor_position, Some (Num 0))] =
     [Some ''TDIV %.2ES'', Some ''HMAG %.2ES'', Some ''HPOS %.2ES'']"
    by (simp add: requested_def bench_def control_def timebase_hor_magnify_def
        timebase_hor_position_def)
  from timebase_setup_writes [OF 1]
  have "\<exists>ws. sent ?s' = sent ?s @ ws \<and>
        requested [(timebase_scale bench, Some (Num 1)), (timebase_offset bench, None),
                   (timebase_hor_magnify, Some (Num (1 / 1000))),
                   (timebase_hor_position, Some (Num 0))] = map write_template ws"
    by auto
  then show ?thesis
    using 1 2 by (simp add: session_def)
qed

section \<open>The interval between two transmissions\<close>

lemma gaps_snoc:
  "gaps (ts @ [t]) = (if ts = [] then [] else gaps ts @ [t - last ts])"
  by (induction ts rule: gaps.induct) auto

lemma deficit_bound:
  assumes "0 \<le> late"
  shows "interval \<le>
    (if 0 < deficit interval t (Some t0) then t + deficit interval t (Some t0) + late else t) - t0"
  using assms by (auto simp: deficit_def split: if_splits)

lemma rate_limited_write_keeps:
  assumes "0 \<le> snd d"
    and "last_write l = (if transmitted l = [] then None else Some (last (transmitted l)))"
    and "\<forall>g \<in> set (gaps (transmitted l)). interval \<le> g"
  shows "last_write (rate_limited_write interval d l) =
           (if transmitted (rate_limited_write interval d l) = [] then None
            else Some (last (transmitted (rate_limited_write interval d l))))"
    and "\<forall>g \<in> set (gaps (transmitted (rate_limited_write interval d l))). interval \<le> g"
proof -
  show "last_write (rate_limited_write interval d l) =
           (if transmitted (rate_limited_write interval d l) = [] then None
            else Some (last (transmitted (rate_limited_write interval d l))))"
    by (simp add: rate_limited_write_def Let_def)
  show "\<forall>g \<in> set (gaps (transmitted (rate_limited_write interval d l))). interval \<le> g"
  proof (cases "transmitted l = []")
    case True
    then show ?thesis
      by (simp add: rate_limited_write_def Let_def)
  next
    case False
    with assms(2) have lw: "last_write l = Some (last (transmitted l))" by simp
    show ?thesis
      using False assms(3) deficit_bound [OF assms(1), of interval "clock l + fst d"
          "last (transmitted l)"]
      by (simp add: rate_limited_write_def Let_def gaps_snoc lw)
  qed
qed

lemma run_writes_keeps:
  assumes "\<forall>d \<in> set schedule. 0 \<le> fst d \<and> 0 \<le> snd d"
    and "last_write l = (if transmitted l = [] then None else Some (last (transmitted l)))"
    and "\<forall>g \<in> set (gaps (transmitted l)). interval \<le> g"
  shows "\<forall>g \<in> set (gaps (transmitted (run_writes interval schedule l))). interval \<le> g"
  using assms
proof (induction schedule arbitrary: l)
  case Nil
  then show ?case by (simp add: run_writes_def)
next
  case (Cons d schedule)
  have d: "0 \<le> snd d" using Cons.prems(1) by simp
  have "\<forall>g \<in> set (gaps (transmitted
           (run_writes interval schedule (rate_limited_write interval d l)))). interval \<le> g"
    using Cons.prems(1) rate_limited_write_keeps [OF d Cons.prems(2) Cons.prems(3)]
    by (intro Cons.IH) simp_all
  then show ?case by (simp add: run_writes_def)
qed

lemma length_run_writes:
  "length (transmitted (run_writes interval schedule l)) = length (transmitted l) + length schedule"
  unfolding run_writes_def
  by (induction schedule arbitrary: l) (simp_all add: rate_limited_write_def Let_def)

text \<open>
  Claim C9. Every command of a session is transmitted, and for every two consecutive
  commands the time between their transmissions is at least the configured interval,
  whatever the interval, however soon the second command is issued and however long the
  sleeps last beyond what was asked; this holds for the default of 10 ms. Time is the
  reading of the monotonic clock.
\<close>

theorem minimum_write_interval:
  assumes "\<forall>d \<in> set schedule. 0 \<le> fst d \<and> 0 \<le> snd d"
  shows "length (transmitted (run_writes interval schedule new_session)) = length schedule \<and>
         (\<forall>g \<in> set (gaps (transmitted (run_writes interval schedule new_session))). interval \<le> g) \<and>
         (\<forall>g \<in> set (gaps (transmitted (run_writes WRITE_INTERVAL_S schedule new_session))).
            1 / 100 \<le> g)"
  using run_writes_keeps [OF assms, of new_session interval]
    run_writes_keeps [OF assms, of new_session WRITE_INTERVAL_S]
  by (simp add: length_run_writes) (simp add: new_session_def WRITE_INTERVAL_S_def)

theorem minimum_write_interval_witness:
  "list_all (\<lambda>d. 0 \<le> fst d \<and> 0 \<le> snd d)
     ([(0, 0), (1 / 1000, 1 / 10000), (1 / 2, 0), (0, 0)] :: (real \<times> real) list) \<and>
   transmitted (run_writes WRITE_INTERVAL_S
     [(0, 0), (1 / 1000, 1 / 10000), (1 / 2, 0), (0, 0)] new_session) =
     [0, 101 / 10000, 5101 / 10000, 5201 / 10000] \<and>
   gaps [0, 101 / 10000, 5101 / 10000, 5201 / 10000] = [101 / 10000, 1 / 2, 1 / 100] \<and>
   list_all (\<lambda>g. 1 / 100 \<le> g)
     (gaps (transmitted (run_writes WRITE_INTERVAL_S
        [(0, 0), (1 / 1000, 1 / 10000), (1 / 2, 0), (0, 0)] new_session)))"
proof -
  let ?sch = "([(0, 0), (1 / 1000, 1 / 10000), (1 / 2, 0), (0, 0)] :: (real \<times> real) list)"
  have 1: "\<forall>d \<in> set ?sch. 0 \<le> fst d \<and> 0 \<le> snd d"
    by simp
  have 2: "transmitted (run_writes WRITE_INTERVAL_S ?sch new_session) =
     [0, 101 / 10000, 5101 / 10000, 5201 / 10000]"
    by (simp add: run_writes_def rate_limited_write_def new_session_def deficit_def
        WRITE_INTERVAL_S_def Let_def)
  have 3: "gaps [0, 101 / 10000, 5101 / 10000, 5201 / 10000 :: real] = [101 / 10000, 1 / 2, 1 / 100]"
    by simp
  from minimum_write_interval [OF 1, of WRITE_INTERVAL_S]
  have "list_all (\<lambda>g. 1 / 100 \<le> g)
     (gaps (transmitted (run_writes WRITE_INTERVAL_S ?sch new_session)))"
    by (simp add: list_all_iff)
  with 1 2 3 show ?thesis
    by (simp add: list_all_iff)
qed

end
